theory Spec2Isabelle
  imports Complex_Main "HOL-Library.Multiset"
begin

section \<open>Python strings and POSIX paths\<close>

text \<open>
  A Python \<open>str\<close> is a sequence of Unicode code points; the program handles the en dash
  (U+2013) and the em dash (U+2014), which do not fit in an 8-bit character, so a
  string is modelled as the list of its code points. \<open>U\<close> embeds an ASCII literal.
\<close>

type_synonym pystr = "nat list"

definition U :: "string \<Rightarrow> pystr" where
  "U s = map of_char s"

text \<open>
  \<open>str.lower\<close> and \<open>str.upper\<close>. The program lowers the extension of a file name,
  compares the result with its ASCII extensions, and raises to upper case only an
  extension found among them, which is ASCII text. Besides \<open>A\<close>..\<open>Z\<close>, the single code
  point whose lower case is an ASCII letter is the Kelvin sign U+212A. \<open>upper\<close> is exact
  on ASCII text and on U+0131 (to \<open>I\<close>) and U+017F (to \<open>S\<close>); it leaves every other code
  point unchanged, also those that Python maps to several characters (U+00DF to \<open>SS\<close>,
  the ligatures U+FB00..U+FB06), which no extension of the program contains.
\<close>

definition lower_char :: "nat \<Rightarrow> nat" where
  "lower_char c = (if 65 \<le> c \<and> c \<le> 90 then c + 32 else if c = 8490 then 107 else c)"

definition lower :: "pystr \<Rightarrow> pystr" where
  "lower s = map lower_char s"

definition upper_char :: "nat \<Rightarrow> nat" where
  "upper_char c =
     (if 97 \<le> c \<and> c \<le> 122 then c - 32
      else if c = 305 then 73 else if c = 383 then 83 else c)"

definition upper :: "pystr \<Rightarrow> pystr" where
  "upper s = map upper_char s"

text \<open>\<open>str.startswith\<close> for a one-character prefix.\<close>

definition startswith :: "pystr \<Rightarrow> nat \<Rightarrow> bool" where
  "startswith s c = (case s of [] \<Rightarrow> False | x # _ \<Rightarrow> x = c)"

text \<open>\<open>str.rfind\<close> for one character: the last index, or \<open>-1\<close>.\<close>

definition rfind :: "pystr \<Rightarrow> nat \<Rightarrow> int" where
  "rfind s c =
     (case filter (\<lambda>i. s ! i = c) (rev [0..<length s]) of
        [] \<Rightarrow> - 1
      | i # _ \<Rightarrow> int i)"

text \<open>
  \<open>os.path.splitext\<close> of \<open>posixpath\<close>: the extension starts at the last dot after the
  last separator, unless only dots precede it in the file name (the loop of
  \<open>genericpath._splitext\<close> that skips leading dots looks for a character that is not a
  dot between the separator and that last dot).
\<close>

definition splitext :: "pystr \<Rightarrow> pystr \<times> pystr" where
  "splitext p =
     (let sepIndex = rfind p 47; dotIndex = rfind p 46
      in if dotIndex > sepIndex
            \<and> list_ex (\<lambda>k. p ! k \<noteq> 46) [nat (sepIndex + 1)..<nat dotIndex]
         then (take (nat dotIndex) p, drop (nat dotIndex) p)
         else (p, []))"

text \<open>\<open>os.path.join\<close> of \<open>posixpath\<close> for two components, and \<open>os.path.basename\<close>.\<close>

definition join :: "pystr \<Rightarrow> pystr \<Rightarrow> pystr" where
  "join a b =
     (if startswith b 47 then b
      else if a = [] \<or> last a = 47 then a @ b
      else a @ [47] @ b)"

definition basename :: "pystr \<Rightarrow> pystr" where
  "basename p = drop (nat (rfind p 47 + 1)) p"

section \<open>Exceptions and observable events\<close>

datatype value_error =
    Invalid_range_format
  | Format_mismatch
  | Unconverted_data
  | Out_of_range

datatype exn =
    OSError
  | ValueError value_error
  | TypeError
  | AttributeError
  | KeyError
  | IndexError
  | JSONDecodeError

text \<open>
  The warnings and errors the program prints, one constructor per \<open>print\<close> call of
  the source; the interpolated values are the arguments. Progress lines and the final
  summary are not modelled.
\<close>

datatype message =
    Error_extracting_metadata pystr exn
  | Warning_size_mismatch pystr
  | Error_copying pystr pystr exn
  | Error_parsing_date_input exn
  | Continuing_without_date_filtering

text \<open>The calls of \<open>input\<close>, in the order of the source.\<close>

datatype prompt =
    Ask_source_folder
  | Ask_event_folder
  | Ask_name
  | Ask_date
  | Ask_camera_model
  | Ask_any_key

text \<open>
  The effects of a run that the properties speak about: printing, a prompt that waits
  for the user, creating directories, copying a file and starting a metadata probe.
\<close>

datatype event =
    Print message
  | Input_prompt prompt
  | Makedirs pystr
  | Copy2 pystr pystr
  | Submit_probe pystr

section \<open>Calendar dates and \<open>strptime\<close>\<close>

text \<open>
  \<open>datetime.date\<close> and \<open>datetime.datetime\<close> as the program uses them: built by
  \<open>strptime\<close>, projected by \<open>.date()\<close> and compared with \<open>\<le>\<close>, which Python
  decides on year, month and day in this order.
\<close>

datatype date = Date (year: nat) (month: nat) (day: nat)

datatype datetime = Datetime (date_of: date) (hour: nat) (minute: nat) (second: nat)

definition date_le :: "date \<Rightarrow> date \<Rightarrow> bool" where
  "date_le a b =
     (year a < year b
      \<or> (year a = year b \<and> (month a < month b \<or> (month a = month b \<and> day a \<le> day b))))"

definition is_leap :: "nat \<Rightarrow> bool" where
  "is_leap y = (y mod 4 = 0 \<and> (0 < y mod 100 \<or> y mod 400 = 0))"

definition days_in_month :: "nat \<Rightarrow> nat \<Rightarrow> nat" where
  "days_in_month y m =
     (if m = 2 then (if is_leap y then 29 else 28)
      else if m = 4 \<or> m = 6 \<or> m = 9 \<or> m = 11 then 30 else 31)"

definition valid_date :: "date \<Rightarrow> bool" where
  "valid_date d =
     (1 \<le> year d \<and> year d \<le> 9999 \<and> 1 \<le> month d \<and> month d \<le> 12
      \<and> 1 \<le> day d \<and> day d \<le> days_in_month (year d) (month d))"

text \<open>
  White space as \<open>str.strip\<close>, \<open>str.isspace\<close> and the \<open>\s\<close> of a Unicode pattern
  see it.
\<close>

definition isspace :: "nat \<Rightarrow> bool" where
  "isspace c =
     ((9 \<le> c \<and> c \<le> 13) \<or> (28 \<le> c \<and> c \<le> 32) \<or> c = 133 \<or> c = 160 \<or> c = 5760
      \<or> (8192 \<le> c \<and> c \<le> 8202) \<or> c = 8232 \<or> c = 8233 \<or> c = 8239 \<or> c = 8287
      \<or> c = 12288)"

definition strip :: "pystr \<Rightarrow> pystr" where
  "strip s = rev (dropWhile isspace (rev (dropWhile isspace s)))"

text \<open>
  \<open>_strptime\<close> turns a format into a regular expression, one group per directive, and
  takes the first match that \<open>re.match\<close> finds: alternatives are tried from left to
  right, with backtracking. A directive is modelled by its alternatives, each a
  sequence of character ranges; a space in the format is \<open>\s+\<close>. The digit class
  \<open>\d\<close> is modelled by the ASCII digits (Python also accepts the decimal digits of
  other scripts there, which this model does not match).
\<close>

datatype directive = Dir_d | Dir_m | Dir_Y | Dir_H | Dir_M | Dir_S | Lit nat | Spaces

fun directive_alts :: "directive \<Rightarrow> (nat \<times> nat) list list" where
  "directive_alts Dir_d =
     [[(51, 51), (48, 49)], [(49, 50), (48, 57)], [(48, 48), (49, 57)], [(49, 57)],
      [(32, 32), (49, 57)]]"
| "directive_alts Dir_m = [[(49, 49), (48, 50)], [(48, 48), (49, 57)], [(49, 57)]]"
| "directive_alts Dir_Y = [[(48, 57), (48, 57), (48, 57), (48, 57)]]"
| "directive_alts Dir_H = [[(50, 50), (48, 51)], [(48, 49), (48, 57)], [(48, 57)]]"
| "directive_alts Dir_M = [[(48, 53), (48, 57)], [(48, 57)]]"
| "directive_alts Dir_S = [[(54, 54), (48, 49)], [(48, 53), (48, 57)], [(48, 57)]]"
| "directive_alts (Lit c) = [[(c, c)]]"
| "directive_alts Spaces = []"

fun match_ranges :: "(nat \<times> nat) list \<Rightarrow> pystr \<Rightarrow> (pystr \<times> pystr) option" where
  "match_ranges [] s = Some ([], s)"
| "match_ranges (r # rs) [] = None"
| "match_ranges (r # rs) (c # cs) =
     (if fst r \<le> c \<and> c \<le> snd r
      then (case match_ranges rs cs of None \<Rightarrow> None | Some (m, rest) \<Rightarrow> Some (c # m, rest))
      else None)"

text \<open>The matches of one directive at the head of a string, in the order tried.\<close>

definition directive_matches :: "directive \<Rightarrow> pystr \<Rightarrow> (pystr \<times> pystr) list" where
  "directive_matches d s =
     (if d = Spaces
      then map (\<lambda>n. (take n s, drop n s)) (rev [1..<Suc (length (takeWhile isspace s))])
      else List.map_filter (\<lambda>alt. match_ranges alt s) (directive_alts d))"

fun re_matches :: "directive list \<Rightarrow> pystr \<Rightarrow> ((directive \<times> pystr) list \<times> pystr) list" where
  "re_matches [] s = [([], s)]"
| "re_matches (d # ds) s =
     concat (map (\<lambda>(m, rest). map (\<lambda>(fs, rest'). ((d, m) # fs, rest')) (re_matches ds rest))
                 (directive_matches d s))"

text \<open>\<open>int\<close> of a matched group: its digits (\<open>int\<close> ignores the blank of \<open>%d\<close>).\<close>

definition int_of :: "pystr \<Rightarrow> nat" where
  "int_of m = foldl (\<lambda>a c. 10 * a + (c - 48)) 0 (filter (\<lambda>c. 48 \<le> c \<and> c \<le> 57) m)"

definition found_int :: "(directive \<times> pystr) list \<Rightarrow> directive \<Rightarrow> nat \<Rightarrow> nat" where
  "found_int fs d default_value = (case map_of fs d of None \<Rightarrow> default_value | Some m \<Rightarrow> int_of m)"

text \<open>
  \<open>datetime.strptime\<close>: no match, text left after the match, and a field out of range
  (a day the month does not have, year 0, second 60 or 61) all raise \<open>ValueError\<close>.
\<close>

definition strptime :: "pystr \<Rightarrow> directive list \<Rightarrow> exn + datetime" where
  "strptime data_string format =
     (case re_matches format data_string of
        [] \<Rightarrow> Inl (ValueError Format_mismatch)
      | (fs, rest) # _ \<Rightarrow>
          if rest \<noteq> [] then Inl (ValueError Unconverted_data)
          else
            (let d = Date (found_int fs Dir_Y 1900) (found_int fs Dir_m 1) (found_int fs Dir_d 1);
                 h = found_int fs Dir_H 0; mi = found_int fs Dir_M 0; sec = found_int fs Dir_S 0
             in if valid_date d \<and> h \<le> 23 \<and> mi \<le> 59 \<and> sec \<le> 59
                then Inr (Datetime d h mi sec)
                else Inl (ValueError Out_of_range)))"

text \<open>The three formats of the program: \<open>%d/%m/%Y\<close>, \<open>%Y:%m:%d %H:%M:%S\<close>, \<open>%Y-%m-%d %H:%M:%S\<close>.\<close>

definition fmt_dmy :: "directive list" where
  "fmt_dmy = [Dir_d, Lit 47, Dir_m, Lit 47, Dir_Y]"

definition fmt_colon :: "directive list" where
  "fmt_colon = [Dir_Y, Lit 58, Dir_m, Lit 58, Dir_d, Spaces, Dir_H, Lit 58, Dir_M, Lit 58, Dir_S]"

definition fmt_hyphen :: "directive list" where
  "fmt_hyphen = [Dir_Y, Lit 45, Dir_m, Lit 45, Dir_d, Spaces, Dir_H, Lit 58, Dir_M, Lit 58, Dir_S]"

section \<open>The metadata probe\<close>

text \<open>
  What \<open>json.loads\<close> returns. \<open>JNull\<close> is Python's \<open>None\<close>; an object is the list
  of the items of the resulting \<open>dict\<close>, whose keys are distinct. The values \<open>NaN\<close> and
  \<open>Infinity\<close>, which \<open>json.loads\<close> accepts, behave here as any number other than zero.
\<close>

datatype json =
    JNull
  | JBool bool
  | JNum real
  | JStr pystr
  | JArr "json list"
  | JObj "(pystr \<times> json) list"

fun truthy :: "json \<Rightarrow> bool" where
  "truthy JNull = False"
| "truthy (JBool b) = b"
| "truthy (JNum x) = (x \<noteq> 0)"
| "truthy (JStr s) = (s \<noteq> [])"
| "truthy (JArr xs) = (xs \<noteq> [])"
| "truthy (JObj kvs) = (kvs \<noteq> [])"

definition dict_get :: "(pystr \<times> json) list \<Rightarrow> pystr \<Rightarrow> json" where
  "dict_get kvs k = (case map_of kvs k of None \<Rightarrow> JNull | Some v \<Rightarrow> v)"

text \<open>
  The outcome of \<open>subprocess.run\<close> on ExifTool for one file: an exception (the tool is
  not installed), or an exit status with the standard output as \<open>json.loads\<close> reads
  it, which raises on malformed text.
\<close>

record completed_process =
  returncode :: int
  stdout_json :: "exn + json"

record metadata =
  model :: json
  datetime_original :: "datetime option"

text \<open>The loop over the two layouts: \<open>ValueError\<close> moves on to the next one.\<close>

fun try_formats :: "pystr \<Rightarrow> directive list list \<Rightarrow> exn + datetime option" where
  "try_formats s [] = Inr None"
| "try_formats s (fmt # fmts) =
     (case strptime s fmt of
        Inr dt \<Rightarrow> Inr (Some dt)
      | Inl (ValueError v) \<Rightarrow> try_formats s fmts
      | Inl e \<Rightarrow> Inl e)"

text \<open>
  The body of the \<open>try\<close> of \<open>exiftool_get_metadata\<close>. \<open>len\<close> of a number or of
  \<open>True\<close>, \<open>data[0]\<close> of a \<open>dict\<close>, \<open>.get\<close> of anything but a \<open>dict\<close> and
  \<open>strptime\<close> of anything but a \<open>str\<close> raise.
\<close>

definition exiftool_get_metadata_try :: "exn + completed_process \<Rightarrow> exn + metadata option" where
  "exiftool_get_metadata_try proc =
     (case proc of
        Inl e \<Rightarrow> Inl e
      | Inr result \<Rightarrow>
          if returncode result \<noteq> 0 then Inr None
          else
            (case stdout_json result of
               Inl e \<Rightarrow> Inl e
             | Inr data \<Rightarrow>
                 if \<not> truthy data then Inr None
                 else
                   (case data of
                      JArr [] \<Rightarrow> Inr None
                    | JArr (JObj info # _) \<Rightarrow>
                        (let camera_model = dict_get info (U ''Model'');
                             dt_original_str = dict_get info (U ''DateTimeOriginal'')
                         in if truthy dt_original_str then
                              (case dt_original_str of
                                 JStr s \<Rightarrow>
                                   (case try_formats s [fmt_colon, fmt_hyphen] of
                                      Inl e \<Rightarrow> Inl e
                                    | Inr dt_original \<Rightarrow>
                                        Inr (Some \<lparr>model = camera_model,
                                                   datetime_original = dt_original\<rparr>))
                               | _ \<Rightarrow> Inl TypeError)
                            else Inr (Some \<lparr>model = camera_model, datetime_original = None\<rparr>))
                    | JArr (_ # _) \<Rightarrow> Inl AttributeError
                    | JStr _ \<Rightarrow> Inl AttributeError
                    | JObj _ \<Rightarrow> Inl KeyError
                    | _ \<Rightarrow> Inl TypeError)))"

definition exiftool_get_metadata ::
  "exn + completed_process \<Rightarrow> pystr \<Rightarrow> event list \<times> metadata option" where
  "exiftool_get_metadata proc file_path =
     (case exiftool_get_metadata_try proc of
        Inl e \<Rightarrow> ([Print (Error_extracting_metadata file_path e)], None)
      | Inr meta \<Rightarrow> ([], meta))"

text \<open>
  \<open>extract_camera_model\<close> calls \<open>.strip()\<close> on the model outside any \<open>try\<close>: a model
  that is true but not a \<open>str\<close> raises \<open>AttributeError\<close>.
\<close>

definition extract_camera_model ::
  "exn + completed_process \<Rightarrow> pystr \<Rightarrow> event list \<times> (exn + pystr option)" where
  "extract_camera_model proc file_path =
     (let (ev, meta) = exiftool_get_metadata proc file_path
      in case meta of
           None \<Rightarrow> (ev, Inr None)
         | Some m \<Rightarrow>
             if truthy (model m) then
               (case model m of
                  JStr s \<Rightarrow> (ev, Inr (Some (strip s)))
                | _ \<Rightarrow> (ev, Inl AttributeError))
             else (ev, Inr None))"

text \<open>
  \<open>get_file_date\<close>; \<open>mtime\<close> is what \<open>os.path.getmtime\<close> gives for the file, already
  as the local \<open>datetime\<close> that \<open>fromtimestamp\<close> makes of it, or the exception it
  raises.
\<close>

definition get_file_date ::
  "exn + completed_process \<Rightarrow> exn + datetime \<Rightarrow> pystr \<Rightarrow> pystr \<Rightarrow> pystr set
     \<Rightarrow> event list \<times> (exn + datetime)" where
  "get_file_date proc mtime file_path ext photo_extensions =
     (if ext \<in> photo_extensions then
        (let (ev, meta) = exiftool_get_metadata proc file_path
         in case meta of
              None \<Rightarrow> (ev, mtime)
            | Some m \<Rightarrow>
                (case datetime_original m of
                   Some dt \<Rightarrow> (ev, Inr dt)
                 | None \<Rightarrow> (ev, mtime)))
      else ([], mtime))"

section \<open>Copy and verify\<close>

text \<open>
  The answers of the operating system to the calls made for one file: whether the
  target folder exists, what \<open>os.makedirs\<close> and \<open>shutil.copy2\<close> raise (if anything),
  and what \<open>os.path.getsize\<close> returns for the source and for the copy. They are inputs
  of the model, unconstrained: a truncating write is a \<open>getsize_target\<close> smaller than
  \<open>getsize_source\<close>.
\<close>

record file_os =
  target_folder_exists :: bool
  makedirs_raises :: "exn option"
  copy2_raises :: "exn option"
  getsize_source :: "exn + nat"
  getsize_target :: "exn + nat"

definition create_directory :: "bool \<Rightarrow> exn option \<Rightarrow> pystr \<Rightarrow> event list \<times> exn option" where
  "create_directory exists raises path =
     (if \<not> exists then ([Makedirs path], raises) else ([], None))"

definition secure_copy :: "file_os \<Rightarrow> pystr \<Rightarrow> pystr \<Rightarrow> event list \<times> bool" where
  "secure_copy os source_file_path target_file_path =
     (case copy2_raises os of
        Some e \<Rightarrow>
          ([Copy2 source_file_path target_file_path,
            Print (Error_copying source_file_path target_file_path e)], False)
      | None \<Rightarrow>
          (case getsize_source os of
             Inl e \<Rightarrow>
               ([Copy2 source_file_path target_file_path,
                 Print (Error_copying source_file_path target_file_path e)], False)
           | Inr n \<Rightarrow>
               (case getsize_target os of
                  Inl e \<Rightarrow>
                    ([Copy2 source_file_path target_file_path,
                      Print (Error_copying source_file_path target_file_path e)], False)
                | Inr m \<Rightarrow>
                    if n = m then ([Copy2 source_file_path target_file_path], True)
                    else ([Copy2 source_file_path target_file_path,
                           Print (Warning_size_mismatch (basename source_file_path))],
                          False))))"

record task =
  root :: pystr
  file_name :: pystr
  photography_main :: pystr
  videography_main :: pystr
  photo_exts :: "pystr set"
  video_exts :: "pystr set"

text \<open>
  \<open>process_file\<close> returns \<open>(success, file_name)\<close>, or raises what \<open>os.makedirs\<close>
  raised: \<open>create_directory\<close> is called outside any \<open>try\<close>.
\<close>

definition process_file :: "file_os \<Rightarrow> task \<Rightarrow> event list \<times> (exn + bool \<times> pystr)" where
  "process_file os t =
     (let ext = lower (snd (splitext (file_name t)));
          source_file_path = join (root t) (file_name t)
      in if ext \<in> photo_exts t \<or> ext \<in> video_exts t then
           (let target_folder =
                  (if ext \<in> photo_exts t
                   then join (photography_main t) (upper (drop 1 ext))
                   else join (videography_main t) (upper (drop 1 ext)));
                (ev1, raised) =
                  create_directory (target_folder_exists os) (makedirs_raises os) target_folder
            in case raised of
                 Some e \<Rightarrow> (ev1, Inl e)
               | None \<Rightarrow>
                   (let target_file_path = join target_folder (file_name t);
                        (ev2, success) = secure_copy os source_file_path target_file_path
                    in (ev1 @ ev2, Inr (success, file_name t))))
         else ([], Inr (False, file_name t)))"

section \<open>The date filter\<close>

text \<open>\<open>sub in s\<close>, \<open>s.replace(old, new)\<close> for single characters, and \<open>s.split(sep)\<close>.\<close>

fun contains :: "pystr \<Rightarrow> pystr \<Rightarrow> bool" where
  "contains [] sub = (sub = [])"
| "contains (c # cs) sub = (take (length sub) (c # cs) = sub \<or> contains cs sub)"

definition replace :: "pystr \<Rightarrow> nat \<Rightarrow> nat \<Rightarrow> pystr" where
  "replace s old new = map (\<lambda>c. if c = old then new else c) s"

text \<open>
  \<open>split_loop\<close> scans from the left; \<open>cur\<close> is the piece being read and \<open>k\<close> the number
  of characters of a separator just found that are still to be passed over.
\<close>

fun split_loop :: "pystr \<Rightarrow> pystr \<Rightarrow> nat \<Rightarrow> pystr \<Rightarrow> pystr list" where
  "split_loop sep cur k [] = [cur]"
| "split_loop sep cur k (c # cs) =
     (if 0 < k then split_loop sep cur (k - 1) cs
      else if take (length sep) (c # cs) = sep then cur # split_loop sep [] (length sep - 1) cs
      else split_loop sep (cur @ [c]) 0 cs)"

definition split :: "pystr \<Rightarrow> pystr \<Rightarrow> pystr list" where
  "split s sep = split_loop sep [] 0 s"

text \<open>
  The body of the \<open>try\<close> of \<open>parse_date_input\<close>. The test for a range looks for the
  ASCII hyphen in the text as typed; the two typographic dashes are replaced inside
  that branch.
\<close>

definition parse_date_input_try :: "pystr \<Rightarrow> exn + date \<times> date" where
  "parse_date_input_try date_input =
     (if contains date_input [45] then
        (let date_input' = replace (replace date_input 8211 45) 8212 45;
             parts = (if contains date_input' (U '' - '') then split date_input' (U '' - '')
                      else split date_input' [45])
         in if length parts \<noteq> 2 then Inl (ValueError Invalid_range_format)
            else
              (case strptime (strip (parts ! 0)) fmt_dmy of
                 Inl e \<Rightarrow> Inl e
               | Inr s \<Rightarrow>
                   (case strptime (strip (parts ! 1)) fmt_dmy of
                      Inl e \<Rightarrow> Inl e
                    | Inr e \<Rightarrow> Inr (date_of s, date_of e))))
      else
        (case strptime (strip date_input) fmt_dmy of
           Inl e \<Rightarrow> Inl e
         | Inr single_date \<Rightarrow> Inr (date_of single_date, date_of single_date)))"

text \<open>\<open>parse_date_input\<close>: \<open>None\<close> stands for the pair \<open>(None, None)\<close>.\<close>

definition parse_date_input :: "pystr \<Rightarrow> event list \<times> (date \<times> date) option" where
  "parse_date_input date_input =
     (case parse_date_input_try date_input of
        Inl e \<Rightarrow> ([Print (Error_parsing_date_input e)], None)
      | Inr w \<Rightarrow> ([], Some w))"

text \<open>The test of \<open>main\<close> on a file's date: \<open>start_date <= file_date <= end_date\<close>.\<close>

definition in_window :: "date \<times> date \<Rightarrow> date \<Rightarrow> bool" where
  "in_window w file_date = (date_le (fst w) file_date \<and> date_le file_date (snd w))"

section \<open>The camera-model race\<close>

text \<open>
  The loop over \<open>as_completed\<close>: \<open>future.result()\<close> returns the model or raises again
  what the probe raised; the first model that is true ends the loop.
\<close>

fun first_model :: "(exn + pystr option) list \<Rightarrow> exn + pystr option" where
  "first_model [] = Inr None"
| "first_model (Inl e # rs) = Inl e"
| "first_model (Inr None # rs) = first_model rs"
| "first_model (Inr (Some m) # rs) = (if m \<noteq> [] then Inr (Some m) else first_model rs)"

text \<open>The completed futures that the loop reads: up to the one that ends it.\<close>

fun consumed :: "('e \<times> (exn + pystr option)) list \<Rightarrow> ('e \<times> (exn + pystr option)) list" where
  "consumed [] = []"
| "consumed ((ev, Inl e) # rs) = [(ev, Inl e)]"
| "consumed ((ev, Inr None) # rs) = (ev, Inr None) # consumed rs"
| "consumed ((ev, Inr (Some m)) # rs) =
     (if m \<noteq> [] then [(ev, Inr (Some m))] else (ev, Inr (Some m)) # consumed rs)"

definition as_completed :: "'a list \<Rightarrow> nat list \<Rightarrow> 'a list" where
  "as_completed fs order = map (\<lambda>i. fs ! i) (filter (\<lambda>i. i < length fs) order)"

text \<open>
  \<open>find_first_camera_model_in_parallel\<close>. \<open>run_exiftool\<close> gives the outcome of the
  tool for each path and \<open>order\<close> the indices of the futures in completion order. The
  events are the submissions and what the probes read by the loop printed; a probe
  that is cancelled or finishes later is not observed.
\<close>

definition find_first_camera_model_in_parallel ::
  "(pystr \<Rightarrow> exn + completed_process) \<Rightarrow> nat list \<Rightarrow> pystr list
     \<Rightarrow> event list \<times> (exn + pystr option)" where
  "find_first_camera_model_in_parallel run_exiftool order photo_files =
     (if photo_files = [] then ([], Inr None)
      else
        (let future_to_file = map (\<lambda>pf. extract_camera_model (run_exiftool pf) pf) photo_files;
             done = as_completed future_to_file order
         in (map Submit_probe photo_files @ concat (map fst (consumed done)),
             first_model (map snd done))))"

section \<open>\<open>main\<close>: date filter, enumeration and directories\<close>

definition photo_extensions :: "pystr set" where
  "photo_extensions =
     {U ''.jpg'', U ''.jpeg'', U ''.cr2'', U ''.nef'', U ''.arw'', U ''.dng'', U ''.cr3'',
      U ''.raf'', U ''.gpr''}"

definition video_extensions :: "pystr set" where
  "video_extensions = {U ''.mp4'', U ''.mov'', U ''.avi'', U ''.mkv''}"

text \<open>
  The date prompt and what follows it. The result \<open>None\<close> is \<open>use_date_filter = False\<close>;
  \<open>typed\<close> is the line the user enters.
\<close>

definition main_date_filter :: "pystr \<Rightarrow> event list \<times> (date \<times> date) option" where
  "main_date_filter typed =
     (let date_input = strip typed
      in if date_input \<noteq> [] then
           (let (ev, parsed) = parse_date_input date_input
            in case parsed of
                 Some w \<Rightarrow> (Input_prompt Ask_date # ev, Some w)
               | None \<Rightarrow>
                   (Input_prompt Ask_date # ev @ [Print Continuing_without_date_filtering], None))
         else ([Input_prompt Ask_date], None))"

text \<open>
  \<open>os.walk\<close> yields a root with the names of its files; the nested loops of \<open>main\<close>
  visit the pairs of \<open>walk_files\<close> in order. Names that begin with a dot or an
  underscore are passed over.
\<close>

definition walk_files :: "(pystr \<times> pystr list) list \<Rightarrow> (pystr \<times> pystr) list" where
  "walk_files tree = concat (map (\<lambda>(r, files). map (\<lambda>f. (r, f)) files) tree)"

definition visible :: "pystr \<Rightarrow> bool" where
  "visible name = (\<not> (startswith name 46 \<or> startswith name 95))"

definition file_ext :: "pystr \<Rightarrow> pystr" where
  "file_ext name = lower (snd (splitext name))"

definition main_gather_photo_files :: "(pystr \<times> pystr list) list \<Rightarrow> pystr list" where
  "main_gather_photo_files tree =
     map (\<lambda>(r, f). join r f)
       (filter (\<lambda>(r, f). visible f \<and> file_ext f \<in> photo_extensions) (walk_files tree))"

text \<open>
  The camera model: the one found, or the line the user types when none was found.
  An exception of a probe leaves \<open>main\<close> through \<open>future.result()\<close>.
\<close>

definition main_camera_model ::
  "(pystr \<Rightarrow> exn + completed_process) \<Rightarrow> nat list \<Rightarrow> pystr list \<Rightarrow> pystr
     \<Rightarrow> event list \<times> (exn + pystr)" where
  "main_camera_model run_exiftool order photo_file_paths typed =
     (let (ev, found) = find_first_camera_model_in_parallel run_exiftool order photo_file_paths
      in case found of
           Inl e \<Rightarrow> (ev, Inl e)
         | Inr None \<Rightarrow> (ev @ [Input_prompt Ask_camera_model], Inr (strip typed))
         | Inr (Some camera_model) \<Rightarrow>
             if camera_model \<noteq> [] then (ev, Inr camera_model)
             else (ev @ [Input_prompt Ask_camera_model], Inr (strip typed)))"

definition folder_suffix_of :: "pystr \<Rightarrow> pystr \<Rightarrow> pystr" where
  "folder_suffix_of camera_model photographer_name =
     replace (camera_model @ [95] @ photographer_name) 32 95"

text \<open>An element of \<open>files_to_process\<close>, as the second walk builds it.\<close>

definition task_of :: "pystr \<Rightarrow> pystr \<Rightarrow> pystr \<times> pystr \<Rightarrow> task" where
  "task_of pm vm rf =
     \<lparr>root = fst rf, file_name = snd rf, photography_main = pm, videography_main = vm,
      photo_exts = photo_extensions, video_exts = video_extensions\<rparr>"

text \<open>
  The second walk builds \<open>files_to_process\<close>. With a date filter, each visible file
  is dated by \<open>get_file_date\<close>, whose exception (from \<open>os.path.getmtime\<close>) ends the run.
\<close>

fun build_file_list ::
  "(pystr \<Rightarrow> exn + completed_process) \<Rightarrow> (pystr \<Rightarrow> exn + datetime) \<Rightarrow> (date \<times> date) option
     \<Rightarrow> pystr \<Rightarrow> pystr \<Rightarrow> (pystr \<times> pystr) list \<Rightarrow> event list \<times> (exn + task list)" where
  "build_file_list run_exiftool getmtime window pm vm [] = ([], Inr [])"
| "build_file_list run_exiftool getmtime window pm vm (rf # rest) =
     (if \<not> visible (snd rf) then build_file_list run_exiftool getmtime window pm vm rest
      else
        (let file_path = join (fst rf) (snd rf);
             t = task_of pm vm rf;
             dated =
               (case window of
                  None \<Rightarrow> ([], Inr True)
                | Some w \<Rightarrow>
                    (case get_file_date (run_exiftool file_path) (getmtime file_path) file_path
                            (file_ext (snd rf)) photo_extensions of
                       (ev, Inl e) \<Rightarrow> (ev, Inl e)
                     | (ev, Inr file_date) \<Rightarrow> (ev, Inr (in_window w (date_of file_date)))))
         in case dated of
              (ev, Inl e) \<Rightarrow> (ev, Inl e)
            | (ev, Inr keep) \<Rightarrow>
                (case build_file_list run_exiftool getmtime window pm vm rest of
                   (ev', Inl e) \<Rightarrow> (ev @ ev', Inl e)
                 | (ev', Inr ts) \<Rightarrow> (ev @ ev', Inr (if keep then t # ts else ts)))))"

text \<open>
  Directories are created against the set of paths that exist. In this stage
  \<open>os.makedirs\<close> is taken to succeed: its failure ends the run. (It also creates the
  missing parents of the path.)
\<close>

definition create_directory_in :: "pystr set \<Rightarrow> pystr \<Rightarrow> event list \<times> pystr set" where
  "create_directory_in dirs path = (fst (create_directory (path \<in> dirs) None path), insert path dirs)"

fun create_directories :: "pystr set \<Rightarrow> pystr list \<Rightarrow> event list \<times> pystr set" where
  "create_directories dirs [] = ([], dirs)"
| "create_directories dirs (p # ps) =
     (let (ev, dirs') = create_directory_in dirs p;
          (ev', dirs'') = create_directories dirs' ps
      in (ev @ ev', dirs''))"

definition photo_files_of :: "task list \<Rightarrow> task list" where
  "photo_files_of files_to_process =
     filter (\<lambda>f. file_ext (file_name f) \<in> photo_extensions) files_to_process"

definition video_files_of :: "task list \<Rightarrow> task list" where
  "video_files_of files_to_process =
     filter (\<lambda>f. file_ext (file_name f) \<in> video_extensions) files_to_process"

definition main_create_folders ::
  "pystr set \<Rightarrow> pystr \<Rightarrow> pystr \<Rightarrow> pystr \<Rightarrow> task list \<Rightarrow> event list \<times> pystr set" where
  "main_create_folders dirs event_folder pm vm files_to_process =
     (let (ev, dirs') =
            (if photo_files_of files_to_process \<noteq> [] then create_directory_in dirs pm
             else ([], dirs));
          videography_folder = join event_folder (U ''Videography'');
          (ev', dirs'') =
            (if video_files_of files_to_process \<noteq> [] then
               create_directories dirs'
                 [videography_folder, vm,
                  join videography_folder (U ''EXPORT''),
                  join videography_folder (U ''Project Files''),
                  join videography_folder (U ''VFX + SFX Folder'')]
             else ([], dirs'))
      in (ev @ ev', dirs''))"

text \<open>
  From the Graphics folder to the main folders: the events, the directories that
  exist afterwards, and \<open>files_to_process\<close> or the exception that ended the run.
\<close>

definition main_plan ::
  "(pystr \<Rightarrow> exn + completed_process) \<Rightarrow> (pystr \<Rightarrow> exn + datetime) \<Rightarrow> pystr set
     \<Rightarrow> (date \<times> date) option \<Rightarrow> pystr \<Rightarrow> pystr \<Rightarrow> (pystr \<times> pystr list) list
     \<Rightarrow> event list \<times> pystr set \<times> (exn + task list)" where
  "main_plan run_exiftool getmtime dirs window event_folder folder_suffix tree =
     (let (ev, dirs') = create_directory_in dirs (join event_folder (U ''Graphics''));
          pm = join (join event_folder (U ''Photography'')) folder_suffix;
          vm = join (join event_folder (U ''Videography'')) folder_suffix
      in case build_file_list run_exiftool getmtime window pm vm (walk_files tree) of
           (ev', Inl e) \<Rightarrow> (ev @ ev', dirs', Inl e)
         | (ev', Inr files_to_process) \<Rightarrow>
             (let (ev'', dirs'') = main_create_folders dirs' event_folder pm vm files_to_process
              in (ev @ ev' @ ev'', dirs'', Inr files_to_process)))"

section \<open>The transfer stage of \<open>main\<close>\<close>

text \<open>
  The loop over \<open>as_completed\<close> runs in the main thread. Its state is the success
  counter, the list of skipped names and the local variable \<open>file_name\<close>, which the
  \<open>except\<close> branch reads without assigning it: there it still holds the name from the
  last result that was unpacked, or the last name the directory walk left in it.
\<close>

record summary =
  success_count :: nat
  skipped_files :: "pystr list"
  file_name_var :: pystr

fun aggregate :: "(exn + bool \<times> pystr) list \<Rightarrow> summary \<Rightarrow> summary" where
  "aggregate [] s = s"
| "aggregate (Inr (success, name) # rs) s =
     (if success
      then aggregate rs (s\<lparr>success_count := success_count s + 1, file_name_var := name\<rparr>)
      else aggregate rs (s\<lparr>skipped_files := skipped_files s @ [name], file_name_var := name\<rparr>))"
| "aggregate (Inl e # rs) s =
     aggregate rs (s\<lparr>skipped_files := skipped_files s @ [file_name_var s]\<rparr>)"

text \<open>
  One future per element of \<open>files_to_process\<close>; \<open>os_of i\<close> are the answers of the
  operating system for the \<open>i\<close>-th of them, and \<open>order\<close> lists the indices of the
  futures in the order in which \<open>as_completed\<close> yields them. An index outside the list
  yields no future and is passed over.
\<close>

definition futures :: "(nat \<Rightarrow> file_os) \<Rightarrow> task list \<Rightarrow> (event list \<times> (exn + bool \<times> pystr)) list" where
  "futures os_of files_to_process =
     map (\<lambda>i. process_file (os_of i) (files_to_process ! i)) [0..<length files_to_process]"

definition main_transfer ::
  "(nat \<Rightarrow> file_os) \<Rightarrow> nat list \<Rightarrow> pystr \<Rightarrow> task list \<Rightarrow> event list \<times> summary" where
  "main_transfer os_of order last_name files_to_process =
     (let done = as_completed (futures os_of files_to_process) order
      in (concat (map fst done),
          aggregate (map snd done)
            \<lparr>success_count = 0, skipped_files = [], file_name_var = last_name\<rparr>))"

definition returned_success :: "(exn + bool \<times> pystr) \<Rightarrow> bool" where
  "returned_success r = (case r of Inr (success, _) \<Rightarrow> success | Inl _ \<Rightarrow> False)"

section \<open>The whole of \<open>main\<close>\<close>

text \<open>
  The lines the user types and the surroundings of a run: the tree that \<open>os.walk\<close>
  lists, the outcome of ExifTool and of \<open>os.path.getmtime\<close> for each path, the
  directories that exist, the answers of the operating system for each transfer and
  the completion orders of the two pools.
\<close>

record typed =
  source_folder_typed :: pystr
  event_folder_typed :: pystr
  photographer_name_typed :: pystr
  date_typed :: pystr
  camera_model_typed :: pystr

record surroundings =
  walk :: "pystr \<Rightarrow> (pystr \<times> pystr list) list"
  run_exiftool :: "pystr \<Rightarrow> exn + completed_process"
  getmtime :: "pystr \<Rightarrow> exn + datetime"
  existing_dirs :: "pystr set"
  probe_order :: "nat list"
  transfer_os :: "nat \<Rightarrow> file_os"
  transfer_order :: "nat list"

definition last_file_name :: "(pystr \<times> pystr list) list \<Rightarrow> pystr" where
  "last_file_name tree = (case walk_files tree of [] \<Rightarrow> [] | rf # rfs \<Rightarrow> snd (last (rf # rfs)))"

definition main :: "surroundings \<Rightarrow> typed \<Rightarrow> event list \<times> (exn + summary)" where
  "main env inp =
     (let source_folder = strip (source_folder_typed inp);
          event_folder = strip (event_folder_typed inp);
          photographer_name = strip (photographer_name_typed inp);
          asked = [Input_prompt Ask_source_folder, Input_prompt Ask_event_folder,
                   Input_prompt Ask_name];
          (ev_date, window) = main_date_filter (date_typed inp);
          tree = walk env source_folder;
          photo_file_paths = main_gather_photo_files tree
      in case main_camera_model (run_exiftool env) (probe_order env) photo_file_paths
                (camera_model_typed inp) of
           (ev_model, Inl e) \<Rightarrow> (asked @ ev_date @ ev_model, Inl e)
         | (ev_model, Inr camera_model) \<Rightarrow>
             (case main_plan (run_exiftool env) (getmtime env) (existing_dirs env) window
                     event_folder (folder_suffix_of camera_model photographer_name) tree of
                (ev_plan, dirs, Inl e) \<Rightarrow> (asked @ ev_date @ ev_model @ ev_plan, Inl e)
              | (ev_plan, dirs, Inr files_to_process) \<Rightarrow>
                  (let (ev_transfer, s) =
                         main_transfer (transfer_os env) (transfer_order env)
                           (last_file_name tree) files_to_process
                   in (asked @ ev_date @ ev_model @ ev_plan @ ev_transfer
                         @ [Input_prompt Ask_any_key],
                       Inr s))))"

section \<open>Notions used in the statements\<close>

text \<open>The folder \<open>process_file\<close> copies into, for a file with a known extension.\<close>

definition target_folder_of :: "task \<Rightarrow> pystr" where
  "target_folder_of t =
     (if file_ext (file_name t) \<in> photo_exts t
      then join (photography_main t) (upper (drop 1 (file_ext (file_name t))))
      else join (videography_main t) (upper (drop 1 (file_ext (file_name t)))))"

text \<open>The paths that \<open>main_create_folders\<close> passes to \<open>create_directory\<close>, in order.\<close>

definition planned_folders :: "pystr \<Rightarrow> pystr \<Rightarrow> pystr \<Rightarrow> task list \<Rightarrow> pystr list" where
  "planned_folders event_folder pm vm files_to_process =
     (if photo_files_of files_to_process = [] then [] else [pm])
     @ (if video_files_of files_to_process = [] then []
        else [join event_folder (U ''Videography''), vm,
              join (join event_folder (U ''Videography'')) (U ''EXPORT''),
              join (join event_folder (U ''Videography'')) (U ''Project Files''),
              join (join event_folder (U ''Videography'')) (U ''VFX + SFX Folder'')])"

text \<open>The characters of a text that \<open>strptime\<close> accepts for \<open>%d/%m/%Y\<close>.\<close>

definition date_char :: "nat \<Rightarrow> bool" where
  "date_char c = (c = 32 \<or> (47 \<le> c \<and> c \<le> 57))"

section \<open>Example surroundings\<close>

text \<open>Concrete files and answers of the operating system, for the examples below.\<close>

definition example_os_clean :: file_os where
  "example_os_clean =
     \<lparr>target_folder_exists = False, makedirs_raises = None, copy2_raises = None,
      getsize_source = Inr 10, getsize_target = Inr 10\<rparr>"

definition example_os_truncated :: file_os where
  "example_os_truncated =
     \<lparr>target_folder_exists = True, makedirs_raises = None, copy2_raises = None,
      getsize_source = Inr 10, getsize_target = Inr 9\<rparr>"

definition example_os_copy_fails :: file_os where
  "example_os_copy_fails =
     \<lparr>target_folder_exists = True, makedirs_raises = None, copy2_raises = Some OSError,
      getsize_source = Inr 10, getsize_target = Inr 10\<rparr>"

definition example_os_makedirs_fails :: file_os where
  "example_os_makedirs_fails =
     \<lparr>target_folder_exists = False, makedirs_raises = Some OSError, copy2_raises = None,
      getsize_source = Inr 10, getsize_target = Inr 10\<rparr>"

definition example_task :: "string \<Rightarrow> task" where
  "example_task name =
     \<lparr>root = U ''/src'', file_name = U name, photography_main = U ''/e/Photography/X_Y'',
      videography_main = U ''/e/Videography/X_Y'', photo_exts = photo_extensions,
      video_exts = video_extensions\<rparr>"

definition example_batch_os :: "nat \<Rightarrow> file_os" where
  "example_batch_os i = (if i = 0 then example_os_truncated else example_os_clean)"

definition example_raising_os :: "nat \<Rightarrow> file_os" where
  "example_raising_os i = (if i = 0 then example_os_makedirs_fails else example_os_clean)"

text \<open>
  An output of ExifTool with both tags, and a tool that gives it for two files, exits
  with status 1 for a third and cannot be started for any other.
\<close>

definition example_json :: "string \<Rightarrow> json" where
  "example_json model_text =
     JArr [JObj [(U ''SourceFile'', JStr (U ''/src/a.JPG'')),
                 (U ''Model'', JStr (U model_text)),
                 (U ''DateTimeOriginal'', JStr (U ''2024:06:01 10:00:00''))]]"

definition example_exiftool :: "pystr \<Rightarrow> exn + completed_process" where
  "example_exiftool p =
     (if p = U ''/src/a.JPG'' \<or> p = U ''/src/b.mp4''
      then Inr \<lparr>returncode = 0, stdout_json = Inr (example_json '' EOS R5 '')\<rparr>
      else if p = U ''/src/c.JPG''
      then Inr \<lparr>returncode = 1, stdout_json = Inl JSONDecodeError\<rparr>
      else Inl OSError)"

definition example_getmtime :: "pystr \<Rightarrow> exn + datetime" where
  "example_getmtime p = Inr (Datetime (Date 2025 1 15) 12 30 0)"

text \<open>
  Outputs of ExifTool with one tag missing, with a timestamp in no known layout, and
  with a model that is a number.
\<close>

definition example_model_only :: completed_process where
  "example_model_only =
     \<lparr>returncode = 0,
      stdout_json = Inr (JArr [JObj [(U ''SourceFile'', JStr (U ''/src/a.JPG'')),
                                     (U ''Model'', JStr (U ''EOS R5''))]])\<rparr>"

definition example_odd_timestamp :: completed_process where
  "example_odd_timestamp =
     \<lparr>returncode = 0,
      stdout_json = Inr (JArr [JObj [(U ''Model'', JStr (U ''EOS R5'')),
                                     (U ''DateTimeOriginal'', JStr (U ''2024/06/01''))]])\<rparr>"

definition example_numeric_model :: completed_process where
  "example_numeric_model =
     \<lparr>returncode = 0,
      stdout_json = Inr (JArr [JObj [(U ''SourceFile'', JStr (U ''/src/a.JPG'')),
                                     (U ''Model'', JNum 6300)]])\<rparr>"

text \<open>An output with the timestamp in the hyphen layout and no model.\<close>

definition example_timestamp_only :: completed_process where
  "example_timestamp_only =
     \<lparr>returncode = 0,
      stdout_json = Inr (JArr [JObj [(U ''SourceFile'', JStr (U ''/src/a.JPG'')),
                                     (U ''DateTimeOriginal'', JStr (U ''2024-06-01 10:00:00''))]])\<rparr>"

text \<open>
  A tree with a photo, a video, a hidden file and a text file, and one with a photo
  only.
\<close>

definition example_tree :: "(pystr \<times> pystr list) list" where
  "example_tree = [(U ''/src'', [U ''a.JPG'', U ''b.mp4'', U ''.hidden'', U ''notes.txt''])]"


text \<open>
  A whole run: the tree above, a date that does not parse, the first transfer
  truncated.
\<close>

definition example_surroundings :: surroundings where
  "example_surroundings =
     \<lparr>walk = (\<lambda>source_folder. if source_folder = U ''/src'' then example_tree else []),
      run_exiftool = example_exiftool,
      getmtime = example_getmtime,
      existing_dirs = {},
      probe_order = [0],
      transfer_os = example_batch_os,
      transfer_order = [1, 0, 2]\<rparr>"

definition example_typed :: typed where
  "example_typed =
     \<lparr>source_folder_typed = U ''/src'', event_folder_typed = U '' /e'',
      photographer_name_typed = U ''Jane Doe '', date_typed = U ''abc'',
      camera_model_typed = []\<rparr>"

section \<open>Every submitted file is counted once\<close>

lemma aggregate_success_count:
  "success_count (aggregate rs s) = success_count s + length (filter returned_success rs)"
  by (induction rs s rule: aggregate.induct) (simp_all add: returned_success_def)

lemma aggregate_skipped_length:
  "length (skipped_files (aggregate rs s))
     = length (skipped_files s) + length (filter (\<lambda>r. \<not> returned_success r) rs)"
  by (induction rs s rule: aggregate.induct) (simp_all add: returned_success_def)

lemma aggregate_skipped_no_raise:
  "\<forall>r \<in> set rs. \<exists>b name. r = Inr (b, name) \<Longrightarrow>
   skipped_files (aggregate rs s)
     = skipped_files s @ map (\<lambda>r. snd (projr r)) (filter (\<lambda>r. \<not> returned_success r) rs)"
  by (induction rs s rule: aggregate.induct) (auto simp: returned_success_def)

lemma as_completed_length:
  assumes "mset order = mset [0..<length fs]"
  shows "length (as_completed fs order) = length fs"
proof -
  have "set order = {0..<length fs}"
    using assms by (metis mset_eq_setD set_upt)
  then have "filter (\<lambda>i. i < length fs) order = order"
    by (auto simp: filter_id_conv)
  moreover have "length order = length fs"
    using assms by (metis mset_eq_length length_upt diff_zero)
  ultimately show ?thesis
    by (simp add: as_completed_def)
qed

lemma completed_results_length:
  assumes "mset order = mset [0..<length files_to_process]"
  shows "length (map snd (as_completed (futures os_of files_to_process) order))
           = length files_to_process"
  using as_completed_length [of order "futures os_of files_to_process"] assms
  by (simp add: futures_def)

lemma main_transfer_success_count:
  "success_count (snd (main_transfer os_of order last_name files_to_process))
     = length (filter returned_success
         (map snd (as_completed (futures os_of files_to_process) order)))"
  by (simp add: main_transfer_def Let_def aggregate_success_count)

lemma main_transfer_skipped_length:
  "length (skipped_files (snd (main_transfer os_of order last_name files_to_process)))
     = length (filter (\<lambda>r. \<not> returned_success r)
         (map snd (as_completed (futures os_of files_to_process) order)))"
  by (simp add: main_transfer_def Let_def aggregate_skipped_length)

text \<open>
  Whatever the order in which the futures complete, the loop of the transfer stage
  handles each future once: the success counter equals the number of futures that
  returned success, the skipped list has one entry for each other future (one that
  returned failure or raised), and the two add up to the number of files submitted.
  When no future raised, the skipped list holds the names of the files that failed, in
  completion order.
\<close>

lemma main_transfer_counts_every_future:
  assumes "mset order = mset [0..<length files_to_process]"
  shows "success_count (snd (main_transfer os_of order last_name files_to_process))
           + length (skipped_files (snd (main_transfer os_of order last_name files_to_process)))
           = length files_to_process
         \<and> success_count (snd (main_transfer os_of order last_name files_to_process))
           = length (filter returned_success
               (map snd (as_completed (futures os_of files_to_process) order)))
         \<and> length (skipped_files (snd (main_transfer os_of order last_name files_to_process)))
           = length (filter (\<lambda>r. \<not> returned_success r)
               (map snd (as_completed (futures os_of files_to_process) order)))
         \<and> ((\<forall>r \<in> set (map snd (as_completed (futures os_of files_to_process) order)).
                \<exists>b name. r = Inr (b, name))
            \<longrightarrow> skipped_files (snd (main_transfer os_of order last_name files_to_process))
                = map (\<lambda>r. snd (projr r))
                    (filter (\<lambda>r. \<not> returned_success r)
                       (map snd (as_completed (futures os_of files_to_process) order))))"
proof -
  let ?rs = "map snd (as_completed (futures os_of files_to_process) order)"
  have "length (filter returned_success ?rs) + length (filter (\<lambda>r. \<not> returned_success r) ?rs)
          = length ?rs"
    by (rule sum_length_filter_compl)
  then have counts:
    "success_count (snd (main_transfer os_of order last_name files_to_process))
       + length (skipped_files (snd (main_transfer os_of order last_name files_to_process)))
       = length files_to_process"
    using completed_results_length [OF assms, of os_of]
    by (simp add: main_transfer_success_count main_transfer_skipped_length)
  have names: "(\<forall>r \<in> set ?rs. \<exists>b name. r = Inr (b, name))
      \<longrightarrow> skipped_files (snd (main_transfer os_of order last_name files_to_process))
          = map (\<lambda>r. snd (projr r)) (filter (\<lambda>r. \<not> returned_success r) ?rs)"
    using aggregate_skipped_no_raise [of ?rs]
    by (simp add: main_transfer_def Let_def)
  show ?thesis
    using counts names main_transfer_success_count [of os_of order last_name files_to_process]
      main_transfer_skipped_length [of os_of order last_name files_to_process]
    by blast
qed

subsection \<open>An example batch\<close>

lemmas path_eval =
  U_def splitext_def rfind_def lower_def lower_char_def upper_def upper_char_def join_def
  startswith_def basename_def upt_rec Let_def photo_extensions_def video_extensions_def

lemma process_file_example_truncated:
  "process_file example_os_truncated (example_task ''a.JPG'') =
     ([Copy2 (U ''/src/a.JPG'') (U ''/e/Photography/X_Y/JPG/a.JPG''),
       Print (Warning_size_mismatch (U ''a.JPG''))],
      Inr (False, U ''a.JPG''))"
  by (simp add: process_file_def example_task_def example_os_truncated_def
        create_directory_def secure_copy_def path_eval)

lemma process_file_example_clean:
  "process_file example_os_clean (example_task ''b.mp4'') =
     ([Makedirs (U ''/e/Videography/X_Y/MP4''),
       Copy2 (U ''/src/b.mp4'') (U ''/e/Videography/X_Y/MP4/b.mp4'')],
      Inr (True, U ''b.mp4''))"
  by (simp add: process_file_def example_task_def example_os_clean_def
        create_directory_def secure_copy_def path_eval)

lemma example_order: "mset [1, 0] = mset [0..<length [example_task ''a.JPG'', example_task ''b.mp4'']]"
  by (simp add: upt_rec)

lemma main_transfer_example:
  "main_transfer example_batch_os [1, 0] (U ''b.mp4'')
     [example_task ''a.JPG'', example_task ''b.mp4''] =
   ([Makedirs (U ''/e/Videography/X_Y/MP4''),
     Copy2 (U ''/src/b.mp4'') (U ''/e/Videography/X_Y/MP4/b.mp4''),
     Copy2 (U ''/src/a.JPG'') (U ''/e/Photography/X_Y/JPG/a.JPG''),
     Print (Warning_size_mismatch (U ''a.JPG''))],
    \<lparr>success_count = 1, skipped_files = [U ''a.JPG''], file_name_var = U ''a.JPG''\<rparr>)"
  by (simp add: main_transfer_def futures_def as_completed_def upt_rec example_batch_os_def
        process_file_example_truncated process_file_example_clean)

lemma example_batch_results:
  "map snd (as_completed (futures example_batch_os [example_task ''a.JPG'', example_task ''b.mp4''])
              [1, 0])
     = [Inr (True, U ''b.mp4''), Inr (False, U ''a.JPG'')]"
  by (simp add: futures_def as_completed_def upt_rec example_batch_os_def
        process_file_example_truncated process_file_example_clean)

lemma main_transfer_counts_example:
  "mset [1, 0] = mset [0..<length [example_task ''a.JPG'', example_task ''b.mp4'']]
   \<and> success_count (snd (main_transfer example_batch_os [1, 0] (U ''b.mp4'')
         [example_task ''a.JPG'', example_task ''b.mp4'']))
       + length (skipped_files (snd (main_transfer example_batch_os [1, 0] (U ''b.mp4'')
         [example_task ''a.JPG'', example_task ''b.mp4''])))
     = 2
   \<and> skipped_files (snd (main_transfer example_batch_os [1, 0] (U ''b.mp4'')
         [example_task ''a.JPG'', example_task ''b.mp4''])) = [U ''a.JPG'']"
proof -
  note claim = main_transfer_counts_every_future
                 [OF example_order, of example_batch_os "U ''b.mp4''"]
  have returned: "\<forall>r \<in> set (map snd (as_completed
        (futures example_batch_os [example_task ''a.JPG'', example_task ''b.mp4'']) [1, 0])).
      \<exists>b name. r = Inr (b, name)"
    unfolding example_batch_results by auto
  have "skipped_files (snd (main_transfer example_batch_os [1, 0] (U ''b.mp4'')
         [example_task ''a.JPG'', example_task ''b.mp4'']))
      = map (\<lambda>r. snd (projr r)) (filter (\<lambda>r. \<not> returned_success r)
          (map snd (as_completed
             (futures example_batch_os [example_task ''a.JPG'', example_task ''b.mp4''])
             [1, 0])))"
    using claim returned by blast
  then have "skipped_files (snd (main_transfer example_batch_os [1, 0] (U ''b.mp4'')
         [example_task ''a.JPG'', example_task ''b.mp4''])) = [U ''a.JPG'']"
    unfolding example_batch_results by (simp add: returned_success_def)
  moreover have "success_count (snd (main_transfer example_batch_os [1, 0] (U ''b.mp4'')
         [example_task ''a.JPG'', example_task ''b.mp4'']))
       + length (skipped_files (snd (main_transfer example_batch_os [1, 0] (U ''b.mp4'')
         [example_task ''a.JPG'', example_task ''b.mp4''])))
     = length [example_task ''a.JPG'', example_task ''b.mp4'']"
    using claim by blast
  ultimately show ?thesis
    using example_order by simp
qed

subsection \<open>A worker that raises\<close>

lemma process_file_example_raises:
  "process_file example_os_makedirs_fails (example_task ''a.JPG'') =
     ([Makedirs (U ''/e/Photography/X_Y/JPG'')], Inl OSError)"
  by (simp add: process_file_def example_task_def example_os_makedirs_fails_def
        create_directory_def path_eval)

lemma example_raising_futures:
  "futures example_raising_os [example_task ''a.JPG'', example_task ''b.mp4''] =
     [([Makedirs (U ''/e/Photography/X_Y/JPG'')], Inl OSError),
      ([Makedirs (U ''/e/Videography/X_Y/MP4''),
        Copy2 (U ''/src/b.mp4'') (U ''/e/Videography/X_Y/MP4/b.mp4'')],
       Inr (True, U ''b.mp4''))]"
  by (simp add: futures_def upt_rec example_raising_os_def
        process_file_example_raises process_file_example_clean)

lemma example_names_differ: "U ''a.JPG'' \<noteq> U ''b.mp4''"
  by (simp add: U_def)

text \<open>
  C1, where the code departs from it. Two files are submitted, \<open>a.JPG\<close> and \<open>b.mp4\<close>,
  and \<open>os.makedirs\<close> raises \<open>OSError\<close> for the folder of \<open>a.JPG\<close>: the future of
  \<open>a.JPG\<close> raises and the future of \<open>b.mp4\<close> returns success. The \<open>except\<close> branch
  of the loop appends the name that the variable \<open>file_name\<close> holds at that moment,
  not the name of the file whose future raised. In either completion order the summary
  is one success and one skipped entry, so the totals add up to two, but the entry is
  \<open>b.mp4\<close>: \<open>a.JPG\<close>, the file that failed, appears in neither outcome, and
  \<open>b.mp4\<close>, which was copied, is counted as a success and listed as skipped as well.
\<close>

theorem raised_transfer_is_listed_under_another_name:
  "map snd (futures example_raising_os [example_task ''a.JPG'', example_task ''b.mp4''])
     = [Inl OSError, Inr (True, U ''b.mp4'')]
   \<and> snd (main_transfer example_raising_os [1, 0] (U ''b.mp4'')
            [example_task ''a.JPG'', example_task ''b.mp4''])
     = \<lparr>success_count = 1, skipped_files = [U ''b.mp4''], file_name_var = U ''b.mp4''\<rparr>
   \<and> snd (main_transfer example_raising_os [0, 1] (U ''b.mp4'')
            [example_task ''a.JPG'', example_task ''b.mp4''])
     = \<lparr>success_count = 1, skipped_files = [U ''b.mp4''], file_name_var = U ''b.mp4''\<rparr>
   \<and> U ''a.JPG'' \<notin> set (skipped_files (snd (main_transfer example_raising_os [1, 0] (U ''b.mp4'')
            [example_task ''a.JPG'', example_task ''b.mp4''])))
   \<and> U ''a.JPG'' \<notin> set (skipped_files (snd (main_transfer example_raising_os [0, 1] (U ''b.mp4'')
            [example_task ''a.JPG'', example_task ''b.mp4''])))"
  by (simp add: main_transfer_def as_completed_def example_raising_futures example_names_differ)

section \<open>Success means copied and verified\<close>

lemma secure_copy_success_iff:
  "snd (secure_copy os src dst)
     \<longleftrightarrow> copy2_raises os = None \<and> (\<exists>n. getsize_source os = Inr n \<and> getsize_target os = Inr n)"
  by (auto simp: secure_copy_def split: option.splits sum.splits)

lemma secure_copy_events_hd:
  "Copy2 src dst \<in> set (fst (secure_copy os src dst))"
  by (auto simp: secure_copy_def split: option.splits sum.splits)

text \<open>The three ways \<open>process_file\<close> ends.\<close>

lemma process_file_unsupported:
  "file_ext (file_name t) \<notin> photo_exts t \<Longrightarrow> file_ext (file_name t) \<notin> video_exts t \<Longrightarrow>
   process_file os t = ([], Inr (False, file_name t))"
  by (simp add: process_file_def file_ext_def Let_def)

lemma process_file_makedirs_raises:
  "file_ext (file_name t) \<in> photo_exts t \<or> file_ext (file_name t) \<in> video_exts t \<Longrightarrow>
   \<not> target_folder_exists os \<Longrightarrow> makedirs_raises os = Some e \<Longrightarrow>
   process_file os t = ([Makedirs (target_folder_of t)], Inl e)"
  by (simp add: process_file_def file_ext_def Let_def create_directory_def target_folder_of_def)

lemma process_file_copies:
  "file_ext (file_name t) \<in> photo_exts t \<or> file_ext (file_name t) \<in> video_exts t \<Longrightarrow>
   target_folder_exists os \<or> makedirs_raises os = None \<Longrightarrow>
   process_file os t =
     ((if target_folder_exists os then [] else [Makedirs (target_folder_of t)])
        @ fst (secure_copy os (join (root t) (file_name t))
                 (join (target_folder_of t) (file_name t))),
      Inr (snd (secure_copy os (join (root t) (file_name t))
                 (join (target_folder_of t) (file_name t))), file_name t))"
  by (auto simp: process_file_def file_ext_def Let_def create_directory_def target_folder_of_def
        split_beta)

lemma process_file_success_iff:
  "(\<exists>name. snd (process_file os t) = Inr (True, name))
     \<longleftrightarrow> (\<exists>s d. Copy2 s d \<in> set (fst (process_file os t)))
         \<and> copy2_raises os = None
         \<and> (\<exists>n. getsize_source os = Inr n \<and> getsize_target os = Inr n)"
proof -
  consider
    (unsupported) "file_ext (file_name t) \<notin> photo_exts t" "file_ext (file_name t) \<notin> video_exts t"
  | (raises) e where "file_ext (file_name t) \<in> photo_exts t \<or> file_ext (file_name t) \<in> video_exts t"
      "\<not> target_folder_exists os" "makedirs_raises os = Some e"
  | (copies) "file_ext (file_name t) \<in> photo_exts t \<or> file_ext (file_name t) \<in> video_exts t"
      "target_folder_exists os \<or> makedirs_raises os = None"
    by (cases "makedirs_raises os") auto
  then show ?thesis
  proof cases
    case unsupported
    then show ?thesis by (simp add: process_file_unsupported)
  next
    case raises
    then show ?thesis by (simp add: process_file_makedirs_raises)
  next
    case copies
    have "\<exists>s d. Copy2 s d \<in> set (fst (process_file os t))"
      unfolding process_file_copies [OF copies] using secure_copy_events_hd by fastforce
    moreover have "(\<exists>name. snd (process_file os t) = Inr (True, name))
        \<longleftrightarrow> snd (secure_copy os (join (root t) (file_name t))
                 (join (target_folder_of t) (file_name t)))"
      unfolding process_file_copies [OF copies] by simp
    ultimately show ?thesis
      using secure_copy_success_iff by blast
  qed
qed

lemma filter_eq_distinct:
  "distinct xs \<Longrightarrow> filter (\<lambda>k. k = i) xs = (if i \<in> set xs then [i] else [])"
  by (induction xs) auto

lemma futures_nth:
  "j < length files \<Longrightarrow> futures os_of files ! j = process_file (os_of j) (files ! j)"
  by (simp add: futures_def)

lemma futures_independent:
  "j < length files \<Longrightarrow> j \<noteq> i \<Longrightarrow> futures (os_of(i := os')) files ! j = futures os_of files ! j"
  by (simp add: futures_nth)

lemma order_facts:
  assumes "mset order = mset [0..<n]"
  shows "distinct order" and "set order = {0..<n}"
  using assms by (metis distinct_upt mset_eq_imp_distinct_iff, metis mset_eq_setD set_upt)

lemma one_failure_summary:
  assumes ord: "mset order = mset [0..<length files]"
    and i: "i < length files"
    and bad: "snd (process_file (os_of i) (files ! i)) = Inr (False, file_name (files ! i))"
    and good: "\<forall>j < length files. j \<noteq> i \<longrightarrow>
                 snd (process_file (os_of j) (files ! j)) = Inr (True, file_name (files ! j))"
  shows "success_count (snd (main_transfer os_of order last_name files)) = length files - 1"
    and "skipped_files (snd (main_transfer os_of order last_name files)) = [file_name (files ! i)]"
proof -
  let ?fs = "futures os_of files"
  let ?rs = "map snd (as_completed ?fs order)"
  have d: "distinct order" and so: "set order = {0..<length files}"
    using order_facts [OF ord] by auto
  have lf: "length ?fs = length files" by (simp add: futures_def)
  have fo: "filter (\<lambda>k. k < length ?fs) order = order"
    using so lf by (auto simp: filter_id_conv)
  have rs: "?rs = map (\<lambda>k. snd (process_file (os_of k) (files ! k))) order"
    unfolding as_completed_def fo using so by (auto simp: futures_nth)
  have res: "\<And>k. k \<in> set order \<Longrightarrow>
      snd (process_file (os_of k) (files ! k)) = Inr (k \<noteq> i, file_name (files ! k))"
  proof -
    fix k assume "k \<in> set order"
    then have "k < length files" using so by simp
    then show "snd (process_file (os_of k) (files ! k)) = Inr (k \<noteq> i, file_name (files ! k))"
      using bad good by (cases "k = i") auto
  qed
  have allr: "\<forall>r \<in> set ?rs. \<exists>b name. r = Inr (b, name)"
    unfolding rs using res by auto
  have flt: "filter (\<lambda>r. \<not> returned_success r) ?rs
               = map (\<lambda>k. snd (process_file (os_of k) (files ! k))) (filter (\<lambda>k. k = i) order)"
    unfolding rs filter_map
    by (rule arg_cong [where f = "map _"], rule filter_cong)
       (auto simp: res returned_success_def)
  have fi: "filter (\<lambda>k. k = i) order = [i]"
    using filter_eq_distinct [OF d, of i] so i by simp
  have sk: "skipped_files (snd (main_transfer os_of order last_name files))
              = map (\<lambda>r. snd (projr r)) (filter (\<lambda>r. \<not> returned_success r) ?rs)"
    using aggregate_skipped_no_raise [OF allr] by (simp add: main_transfer_def Let_def)
  show s2: "skipped_files (snd (main_transfer os_of order last_name files)) = [file_name (files ! i)]"
    unfolding sk flt fi using bad by simp
  have "success_count (snd (main_transfer os_of order last_name files))
          + length (skipped_files (snd (main_transfer os_of order last_name files))) = length files"
    using completed_results_length [OF ord, of os_of]
      sum_length_filter_compl [of returned_success "map snd (as_completed (futures os_of files) order)"]
    by (simp add: main_transfer_success_count main_transfer_skipped_length)
  then show "success_count (snd (main_transfer os_of order last_name files)) = length files - 1"
    unfolding s2 by simp
qed


text \<open>
  C2. A transfer succeeds exactly when the copy was carried out, \<open>shutil.copy2\<close> raised
  nothing and the two sizes read afterwards are equal. A size mismatch prints its own
  warning and returns failure; an error of the copy prints the copy error. The result
  of a transfer depends on the answers for that file alone: replacing the answers for
  file \<open>i\<close> leaves every other future as it was, and a batch in which file \<open>i\<close> alone
  fails ends with all the others counted as successes and only \<open>i\<close> in the skipped list.
\<close>

theorem transfer_succeeds_iff_copied_and_sizes_match:
  "((\<exists>name. snd (process_file os t) = Inr (True, name))
      \<longleftrightarrow> (\<exists>s d. Copy2 s d \<in> set (fst (process_file os t)))
          \<and> copy2_raises os = None
          \<and> (\<exists>n. getsize_source os = Inr n \<and> getsize_target os = Inr n))
   \<and> (snd (secure_copy os src dst)
      \<longleftrightarrow> copy2_raises os = None
          \<and> (\<exists>n. getsize_source os = Inr n \<and> getsize_target os = Inr n))
   \<and> (copy2_raises os_m = None \<and> getsize_source os_m = Inr a \<and> getsize_target os_m = Inr b
        \<and> a \<noteq> b
      \<longrightarrow> secure_copy os_m src dst
            = ([Copy2 src dst, Print (Warning_size_mismatch (basename src))], False))
   \<and> (copy2_raises os_e = Some e
      \<longrightarrow> secure_copy os_e src dst = ([Copy2 src dst, Print (Error_copying src dst e)], False))
   \<and> (j < length files \<and> j \<noteq> i
      \<longrightarrow> futures (os_of(i := os')) files ! j = futures os_of files ! j)
   \<and> (mset order = mset [0..<length files] \<and> i < length files
        \<and> snd (process_file (os_of i) (files ! i)) = Inr (False, file_name (files ! i))
        \<and> (\<forall>k < length files. k \<noteq> i \<longrightarrow>
              snd (process_file (os_of k) (files ! k)) = Inr (True, file_name (files ! k)))
      \<longrightarrow> success_count (snd (main_transfer os_of order last_name files)) = length files - 1
          \<and> skipped_files (snd (main_transfer os_of order last_name files))
            = [file_name (files ! i)])"
proof -
  have mismatch: "copy2_raises os_m = None \<and> getsize_source os_m = Inr a
      \<and> getsize_target os_m = Inr b \<and> a \<noteq> b
      \<longrightarrow> secure_copy os_m src dst
            = ([Copy2 src dst, Print (Warning_size_mismatch (basename src))], False)"
    by (simp add: secure_copy_def)
  have copy_error: "copy2_raises os_e = Some e
      \<longrightarrow> secure_copy os_e src dst = ([Copy2 src dst, Print (Error_copying src dst e)], False)"
    by (simp add: secure_copy_def)
  show ?thesis
    using process_file_success_iff [of os t] secure_copy_success_iff [of os src dst]
      mismatch copy_error futures_independent [of j files i os_of os']
      one_failure_summary [of order files i os_of last_name]
    by blast
qed

lemma example_task_names:
  "file_name (example_task n) = U n"
  by (simp add: example_task_def)

theorem transfer_succeeds_iff_copied_and_sizes_match_witness:
  "(copy2_raises example_os_truncated = None \<and> getsize_source example_os_truncated = Inr 10
      \<and> getsize_target example_os_truncated = Inr 9 \<and> (10::nat) \<noteq> 9)
   \<and> secure_copy example_os_truncated (U ''/src/a.JPG'') (U ''/e/a.JPG'')
       = ([Copy2 (U ''/src/a.JPG'') (U ''/e/a.JPG''),
           Print (Warning_size_mismatch (basename (U ''/src/a.JPG'')))], False)
   \<and> copy2_raises example_os_copy_fails = Some OSError
   \<and> secure_copy example_os_copy_fails (U ''/src/a.JPG'') (U ''/e/a.JPG'')
       = ([Copy2 (U ''/src/a.JPG'') (U ''/e/a.JPG''),
           Print (Error_copying (U ''/src/a.JPG'') (U ''/e/a.JPG'') OSError)], False)
   \<and> (1 < length [example_task ''a.JPG'', example_task ''b.mp4''] \<and> (1::nat) \<noteq> 0)
   \<and> futures (example_batch_os(0 := example_os_copy_fails))
         [example_task ''a.JPG'', example_task ''b.mp4''] ! 1
       = futures example_batch_os [example_task ''a.JPG'', example_task ''b.mp4''] ! 1
   \<and> mset [1, 0] = mset [0..<length [example_task ''a.JPG'', example_task ''b.mp4'']]
   \<and> success_count (snd (main_transfer example_batch_os [1, 0] (U ''b.mp4'')
         [example_task ''a.JPG'', example_task ''b.mp4''])) = 1
   \<and> skipped_files (snd (main_transfer example_batch_os [1, 0] (U ''b.mp4'')
         [example_task ''a.JPG'', example_task ''b.mp4''])) = [U ''a.JPG'']"
proof -
  let ?files = "[example_task ''a.JPG'', example_task ''b.mp4'']"
  have h1: "copy2_raises example_os_truncated = None \<and> getsize_source example_os_truncated = Inr 10
      \<and> getsize_target example_os_truncated = Inr 9 \<and> (10::nat) \<noteq> 9"
    by (simp add: example_os_truncated_def)
  have h2: "copy2_raises example_os_copy_fails = Some OSError"
    by (simp add: example_os_copy_fails_def)
  have h3: "1 < length ?files \<and> (1::nat) \<noteq> 0" by simp
  have bad: "snd (process_file (example_batch_os 0) (?files ! 0)) = Inr (False, file_name (?files ! 0))"
    by (simp add: example_batch_os_def process_file_example_truncated example_task_names)
  have good: "\<forall>k < length ?files. k \<noteq> 0 \<longrightarrow>
      snd (process_file (example_batch_os k) (?files ! k)) = Inr (True, file_name (?files ! k))"
    by (simp add: example_batch_os_def process_file_example_clean example_task_names less_Suc_eq)
  have h4: "mset [1, 0] = mset [0..<length ?files] \<and> 0 < length ?files
      \<and> snd (process_file (example_batch_os 0) (?files ! 0)) = Inr (False, file_name (?files ! 0))
      \<and> (\<forall>k < length ?files. k \<noteq> 0 \<longrightarrow>
            snd (process_file (example_batch_os k) (?files ! k)) = Inr (True, file_name (?files ! k)))"
    using example_order bad good by simp
  from transfer_succeeds_iff_copied_and_sizes_match
         [of example_os_clean "example_task ''b.mp4''" "U ''/src/a.JPG''" "U ''/e/a.JPG''"
             example_os_truncated 10 9 example_os_copy_fails OSError 1 ?files 0
             example_batch_os example_os_copy_fails "[1, 0]" "U ''b.mp4''"]
  have "secure_copy example_os_truncated (U ''/src/a.JPG'') (U ''/e/a.JPG'')
       = ([Copy2 (U ''/src/a.JPG'') (U ''/e/a.JPG''),
           Print (Warning_size_mismatch (basename (U ''/src/a.JPG'')))], False)"
    and "secure_copy example_os_copy_fails (U ''/src/a.JPG'') (U ''/e/a.JPG'')
       = ([Copy2 (U ''/src/a.JPG'') (U ''/e/a.JPG''),
           Print (Error_copying (U ''/src/a.JPG'') (U ''/e/a.JPG'') OSError)], False)"
    and "futures (example_batch_os(0 := example_os_copy_fails)) ?files ! 1
       = futures example_batch_os ?files ! 1"
    and "success_count (snd (main_transfer example_batch_os [1, 0] (U ''b.mp4'') ?files))
           = length ?files - 1"
    and "skipped_files (snd (main_transfer example_batch_os [1, 0] (U ''b.mp4'') ?files))
           = [file_name (?files ! 0)]"
    using h1 h2 h3 h4 by blast+
  then show ?thesis
    using h1 h2 h3 example_order by (simp add: example_task_names)
qed



section \<open>Single dates and ranges\<close>

lemmas date_eval =
  U_def parse_date_input_def parse_date_input_try_def strptime_def fmt_dmy_def
  directive_matches_def List.map_filter_def found_int_def int_of_def valid_date_def
  days_in_month_def is_leap_def strip_def isspace_def replace_def split_def Let_def

lemma parse_date_input_single: "parse_date_input (U ''01/06/2024'') = ([], Some (Date 2024 6 1, Date 2024 6 1))"
  by (simp add: date_eval)

lemma parse_date_input_range: "parse_date_input (U ''01/06/2024 - 05/06/2024'') = ([], Some (Date 2024 6 1, Date 2024 6 5))"
  by (simp add: date_eval)

lemma parse_date_input_reversed: "parse_date_input (U ''05/06/2024 - 01/06/2024'') = ([], Some (Date 2024 6 5, Date 2024 6 1))"
  by (simp add: date_eval)

lemma parse_date_input_en_dash: "parse_date_input (U ''01/06/2024 '' @ [8211] @ U '' 05/06/2024'')
   = ([Print (Error_parsing_date_input (ValueError Unconverted_data))], None)"
  by (simp add: date_eval)

lemma parse_date_input_em_dash: "parse_date_input (U ''01/06/2024 '' @ [8212] @ U '' 05/06/2024'')
   = ([Print (Error_parsing_date_input (ValueError Unconverted_data))], None)"
  by (simp add: date_eval)

lemma parse_date_input_abc: "parse_date_input (U ''abc'') = ([Print (Error_parsing_date_input (ValueError Format_mismatch))], None)"
  by (simp add: date_eval)

lemma window_june:
  "in_window (Date 2024 6 1, Date 2024 6 5) d
    = (year d = 2024 \<and> month d = 6 \<and> 1 \<le> day d \<and> day d \<le> 5)"
  by (cases d) (auto simp: in_window_def date_le_def)

lemma date_le_trans: "date_le a b \<Longrightarrow> date_le b c \<Longrightarrow> date_le a c"
  by (auto simp: date_le_def)

lemma split_loop_no_hyphen:
  "45 \<notin> set b \<Longrightarrow> split_loop (U '' - '') cur 0 b = [cur @ b]"
proof (induction b arbitrary: cur)
  case Nil
  then show ?case by simp
next
  case (Cons c cs)
  have "take (length (U '' - '')) (c # cs) \<noteq> U '' - ''"
    using Cons.prems by (cases cs) (auto simp: U_def)
  then show ?case using Cons by simp
qed

lemma split_range:
  "45 \<notin> set a \<Longrightarrow> 45 \<notin> set b \<Longrightarrow>
   split_loop (U '' - '') cur 0 (a @ U '' - '' @ b) = [cur @ a, b]"
proof (induction a arbitrary: cur)
  case Nil
  have "split_loop (U '' - '') cur 0 (U '' - '' @ b) = cur # split_loop (U '' - '') [] 0 b"
    by (simp add: U_def)
  then show ?case using split_loop_no_hyphen [of b "[]"] Nil by simp
next
  case (Cons c cs)
  have "take (length (U '' - '')) ((c # cs) @ U '' - '' @ b) \<noteq> U '' - ''"
    using Cons.prems by (cases cs) (auto simp: U_def)
  then show ?case using Cons by simp
qed

lemma contains_append: "contains (a @ sub @ b) sub"
proof (induction a)
  case Nil
  show ?case
  proof (cases "sub @ b")
    case Nil
    then show ?thesis by simp
  next
    case (Cons c cs)
    have "take (length sub) (sub @ b) = sub" by simp
    then show ?thesis using Cons by simp
  qed
next
  case (Cons c cs)
  then show ?case by simp
qed

lemma replace_absent: "old \<notin> set s \<Longrightarrow> replace s old new = s"
  by (induction s) (auto simp: replace_def)

lemma parse_date_input_two_parts:
  assumes "45 \<notin> set a" "8211 \<notin> set a" "8212 \<notin> set a"
    and "45 \<notin> set b" "8211 \<notin> set b" "8212 \<notin> set b"
    and "strptime (strip a) fmt_dmy = Inr x" "strptime (strip b) fmt_dmy = Inr y"
  shows "parse_date_input (a @ U '' - '' @ b) = ([], Some (date_of x, date_of y))"
proof -
  let ?t = "a @ U '' - '' @ b"
  have c1: "contains ?t [45]"
    using contains_append [of "a @ [32]" "[45]" "[32] @ b"] by (simp add: U_def)
  have r: "replace (replace ?t 8211 45) 8212 45 = ?t"
    using assms by (simp add: replace_absent U_def)
  have c2: "contains ?t (U '' - '')" by (rule contains_append)
  have sp: "split ?t (U '' - '') = [a, b]"
    using split_range [of a b "[]"] assms by (simp add: split_def)
  show ?thesis
    using assms(7,8) by (simp add: parse_date_input_def parse_date_input_try_def c1 r c2 sp)
qed

lemma parse_date_input_one_part:
  assumes "45 \<notin> set a" and "strptime (strip a) fmt_dmy = Inr x"
  shows "parse_date_input a = ([], Some (date_of x, date_of x))"
proof -
  have "\<not> contains a [45]" using assms(1) by (induction a) auto
  then show ?thesis using assms(2) by (simp add: parse_date_input_def parse_date_input_try_def)
qed


subsection \<open>What an accepted date is made of\<close>

lemma match_ranges_sound:
  "match_ranges alt s = Some (m, rest) \<Longrightarrow>
   s = m @ rest \<and> (\<forall>c \<in> set m. \<exists>r \<in> set alt. fst r \<le> c \<and> c \<le> snd r)"
proof (induction alt s arbitrary: m rule: match_ranges.induct)
  case (1 s)
  then show ?case by simp
next
  case (2 r rs)
  then show ?case by simp
next
  case (3 r rs c cs)
  from "3.prems" obtain m' where
    inr: "fst r \<le> c" "c \<le> snd r" and rec: "match_ranges rs cs = Some (m', rest)"
    and m: "m = c # m'"
    by (auto split: if_splits option.splits)
  from "3.IH" [OF _ rec] inr
  have "cs = m' @ rest" and "\<forall>x \<in> set m'. \<exists>r' \<in> set rs. fst r' \<le> x \<and> x \<le> snd r'"
    by simp_all
  then show ?case using inr m by auto
qed

lemma fmt_dmy_ranges:
  assumes "d \<in> set fmt_dmy" and "alt \<in> set (directive_alts d)" and "r \<in> set alt"
    and "fst r \<le> c" and "c \<le> snd r"
  shows "date_char c"
  using assms by (auto simp: fmt_dmy_def date_char_def)

lemma directive_matches_sound:
  assumes "d \<in> set fmt_dmy" and "(m, rest) \<in> set (directive_matches d s)"
  shows "s = m @ rest \<and> (\<forall>c \<in> set m. date_char c)"
proof -
  have "d \<noteq> Spaces" using assms(1) by (auto simp: fmt_dmy_def)
  then obtain alt where alt: "alt \<in> set (directive_alts d)" "match_ranges alt s = Some (m, rest)"
    using assms(2) by (auto simp: directive_matches_def List.map_filter_def split: option.splits)
  show ?thesis
    using match_ranges_sound [OF alt(2)] fmt_dmy_ranges [OF assms(1) alt(1)] by blast
qed

lemma re_matches_sound:
  assumes "set ds \<subseteq> set fmt_dmy" and "(fs, rest) \<in> set (re_matches ds s)"
  shows "\<exists>m. s = m @ rest \<and> (\<forall>c \<in> set m. date_char c)"
  using assms
proof (induction ds arbitrary: s fs)
  case Nil
  then show ?case by simp
next
  case (Cons d ds)
  from Cons.prems(2) obtain m r fs' where
    m: "(m, r) \<in> set (directive_matches d s)" and f: "(fs', rest) \<in> set (re_matches ds r)"
    by auto
  have "d \<in> set fmt_dmy" using Cons.prems(1) by simp
  from directive_matches_sound [OF this m]
  have s: "s = m @ r" and mc: "\<forall>c \<in> set m. date_char c" by simp_all
  from Cons.IH [OF _ f] Cons.prems(1)
  obtain m' where r: "r = m' @ rest" and mc': "\<forall>c \<in> set m'. date_char c" by auto
  show ?case using s r mc mc' by (intro exI [of _ "m @ m'"]) auto
qed

lemma strptime_dmy_chars:
  assumes "strptime s fmt_dmy = Inr x"
  shows "\<forall>c \<in> set s. date_char c"
proof -
  from assms obtain fs more where "re_matches fmt_dmy s = (fs, []) # more"
    by (auto simp: strptime_def split: list.splits if_splits)
  then have "(fs, []) \<in> set (re_matches fmt_dmy s)" by simp
  from re_matches_sound [OF subset_refl this] show ?thesis by simp
qed

lemma set_dropWhile: "set xs \<subseteq> set (dropWhile P xs) \<union> {x. P x}"
  by (induction xs) auto

lemma set_strip: "set s \<subseteq> set (strip s) \<union> {c. isspace c}"
proof -
  have "set s \<subseteq> set (dropWhile isspace s) \<union> {c. isspace c}" by (rule set_dropWhile)
  moreover have "set (rev (dropWhile isspace s))
      \<subseteq> set (dropWhile isspace (rev (dropWhile isspace s))) \<union> {c. isspace c}"
    by (rule set_dropWhile)
  ultimately show ?thesis by (auto simp: strip_def)
qed

lemma date_text_chars:
  assumes "strptime (strip a) fmt_dmy = Inr x" and "c \<in> set a"
  shows "isspace c \<or> date_char c"
  using strptime_dmy_chars [OF assms(1)] set_strip [of a] assms(2) by blast

lemma date_text_no_dash:
  assumes "strptime (strip a) fmt_dmy = Inr x"
  shows "45 \<notin> set a" "8211 \<notin> set a" "8212 \<notin> set a"
  using date_text_chars [OF assms, of 45] date_text_chars [OF assms, of 8211]
    date_text_chars [OF assms, of 8212]
  by (auto simp: isspace_def date_char_def)

lemma dash_without_hyphen_fails:
  assumes "45 \<notin> set date_input" and "8211 \<in> set date_input \<or> 8212 \<in> set date_input"
  shows "snd (parse_date_input date_input) = None"
proof -
  have nc: "\<not> contains date_input [45]" using assms(1) by (induction date_input) auto
  have "\<forall>x. strptime (strip date_input) fmt_dmy \<noteq> Inr x"
    using date_text_no_dash(2,3) assms(2) by blast
  then show ?thesis
    using nc by (auto simp: parse_date_input_def parse_date_input_try_def split: sum.splits)
qed

subsection \<open>Examples and claims\<close>

lemma strptime_example_dates:
  "strptime (strip (U ''05/06/2024'')) fmt_dmy = Inr (Datetime (Date 2024 6 5) 0 0 0)"
  "strptime (strip (U ''01/06/2024'')) fmt_dmy = Inr (Datetime (Date 2024 6 1) 0 0 0)"
  by (simp_all add: date_eval)

lemma example_dates_no_dash:
  "45 \<notin> set (U ''05/06/2024'')" "8211 \<notin> set (U ''05/06/2024'')" "8212 \<notin> set (U ''05/06/2024'')"
  "45 \<notin> set (U ''01/06/2024'')" "8211 \<notin> set (U ''01/06/2024'')" "8212 \<notin> set (U ''01/06/2024'')"
  by (simp_all add: U_def)

lemma single_date_start_is_end:
  assumes "45 \<notin> set date_input" and "snd (parse_date_input date_input) = Some (s, e)"
  shows "s = e"
proof -
  have "\<not> contains date_input [45]" using assms(1) by (induction date_input) auto
  then show ?thesis
    using assms(2)
    by (auto simp: parse_date_input_def parse_date_input_try_def split: sum.splits)
qed

text \<open>
  C8. A text without a hyphen that parses at all gives a window with start = end;
  \<open>01/06/2024\<close> gives the window from 2024-06-01 to 2024-06-01, and
  \<open>01/06/2024 - 05/06/2024\<close> gives a window whose test accepts exactly the dates of
  June 2024 with day 1 to 5: the five days are accepted, 31/05/2024 and 06/06/2024 are
  rejected.
\<close>

theorem date_filter_single_and_range:
  "(45 \<notin> set date_input \<and> snd (parse_date_input date_input) = Some (s, e) \<longrightarrow> s = e)
   \<and> parse_date_input (U ''01/06/2024'') = ([], Some (Date 2024 6 1, Date 2024 6 1))
   \<and> parse_date_input (U ''01/06/2024 - 05/06/2024'') = ([], Some (Date 2024 6 1, Date 2024 6 5))
   \<and> in_window (Date 2024 6 1, Date 2024 6 5) d
       = (year d = 2024 \<and> month d = 6 \<and> 1 \<le> day d \<and> day d \<le> 5)
   \<and> in_window (Date 2024 6 1, Date 2024 6 5) (Date 2024 6 1)
   \<and> in_window (Date 2024 6 1, Date 2024 6 5) (Date 2024 6 2)
   \<and> in_window (Date 2024 6 1, Date 2024 6 5) (Date 2024 6 3)
   \<and> in_window (Date 2024 6 1, Date 2024 6 5) (Date 2024 6 4)
   \<and> in_window (Date 2024 6 1, Date 2024 6 5) (Date 2024 6 5)
   \<and> \<not> in_window (Date 2024 6 1, Date 2024 6 5) (Date 2024 5 31)
   \<and> \<not> in_window (Date 2024 6 1, Date 2024 6 5) (Date 2024 6 6)"
proof -
  have "\<not> in_window (Date 2024 6 1, Date 2024 6 5) (Date 2024 5 31)"
    by (simp add: in_window_def date_le_def)
  moreover have "\<not> in_window (Date 2024 6 1, Date 2024 6 5) (Date 2024 6 6)"
    by (simp add: in_window_def date_le_def)
  moreover have "in_window (Date 2024 6 1, Date 2024 6 5) (Date 2024 6 1)"
    "in_window (Date 2024 6 1, Date 2024 6 5) (Date 2024 6 2)"
    "in_window (Date 2024 6 1, Date 2024 6 5) (Date 2024 6 3)"
    "in_window (Date 2024 6 1, Date 2024 6 5) (Date 2024 6 4)"
    "in_window (Date 2024 6 1, Date 2024 6 5) (Date 2024 6 5)"
    by (simp_all add: in_window_def date_le_def)
  ultimately show ?thesis
    using single_date_start_is_end [of date_input s e] parse_date_input_single
      parse_date_input_range window_june [of d]
    by blast
qed

theorem date_filter_single_and_range_witness:
  "45 \<notin> set (U ''01/06/2024'')
   \<and> snd (parse_date_input (U ''01/06/2024'')) = Some (Date 2024 6 1, Date 2024 6 1)
   \<and> in_window (Date 2024 6 1, Date 2024 6 5) (Date 2024 6 3)
   \<and> \<not> in_window (Date 2024 6 1, Date 2024 6 5) (Date 2024 7 3)"
  using date_filter_single_and_range
          [of "U ''01/06/2024''" "Date 2024 6 1" "Date 2024 6 1" "Date 2024 7 3"]
    example_dates_no_dash
  by (simp add: parse_date_input_single)

section \<open>Typographic dashes\<close>

text \<open>
  C7. A text with an en dash or an em dash and no ASCII hyphen never parses:
  \<open>parse_date_input\<close> does not reach the branch that replaces the dashes, the whole
  text goes to \<open>strptime\<close>, which fails, and no window is returned. So it is for the
  two dates below, which give the window when the ASCII hyphen separates them.
\<close>

theorem typographic_dash_range_is_rejected:
  "(45 \<notin> set date_input \<and> (8211 \<in> set date_input \<or> 8212 \<in> set date_input)
      \<longrightarrow> snd (parse_date_input date_input) = None)
   \<and> parse_date_input (U ''01/06/2024 '' @ [8211] @ U '' 05/06/2024'')
     = ([Print (Error_parsing_date_input (ValueError Unconverted_data))], None)
   \<and> parse_date_input (U ''01/06/2024 '' @ [8212] @ U '' 05/06/2024'')
     = ([Print (Error_parsing_date_input (ValueError Unconverted_data))], None)
   \<and> parse_date_input (U ''01/06/2024 - 05/06/2024'')
     = ([], Some (Date 2024 6 1, Date 2024 6 5))"
  using dash_without_hyphen_fails [of date_input] parse_date_input_en_dash
    parse_date_input_em_dash parse_date_input_range
  by blast

lemma example_en_dash_text:
  "45 \<notin> set (U ''01/06/2024 '' @ [8211] @ U '' 05/06/2024'')"
  "8211 \<in> set (U ''01/06/2024 '' @ [8211] @ U '' 05/06/2024'')"
  by (simp_all add: U_def)

theorem typographic_dash_range_is_rejected_witness:
  "45 \<notin> set (U ''01/06/2024 '' @ [8211] @ U '' 05/06/2024'')
   \<and> 8211 \<in> set (U ''01/06/2024 '' @ [8211] @ U '' 05/06/2024'')
   \<and> snd (parse_date_input (U ''01/06/2024 '' @ [8211] @ U '' 05/06/2024'')) = None"
  using typographic_dash_range_is_rejected
          [of "U ''01/06/2024 '' @ [8211] @ U '' 05/06/2024''"]
    example_en_dash_text
  by blast

section \<open>The order of the two dates\<close>

text \<open>
  C3, as stated, fails: the two dates of \<open>05/06/2024 - 01/06/2024\<close> are returned as
  they were written, start after end.
\<close>

theorem reversed_range_is_returned:
  "parse_date_input (U ''05/06/2024 - 01/06/2024'') = ([], Some (Date 2024 6 5, Date 2024 6 1))
   \<and> \<not> date_le (Date 2024 6 5) (Date 2024 6 1)"
  by (simp add: parse_date_input_reversed date_le_def)

text \<open>
  C3, amended. Two texts that \<open>strptime\<close> accepts as dates (white space around
  them apart), joined by a hyphen between spaces, parse to the window of the two dates
  in the order written, whatever their order: start \<open>\<le>\<close> end is not checked. When
  the first date is after the second, the window returned accepts no date.
\<close>

theorem parse_date_input_keeps_written_order:
  assumes "strptime (strip a) fmt_dmy = Inr x" and "strptime (strip b) fmt_dmy = Inr y"
  shows "parse_date_input (a @ U '' - '' @ b) = ([], Some (date_of x, date_of y))
         \<and> (\<not> date_le (date_of x) (date_of y) \<longrightarrow> \<not> in_window (date_of x, date_of y) d)"
proof -
  have "\<not> date_le (date_of x) (date_of y) \<longrightarrow> \<not> in_window (date_of x, date_of y) d"
    using date_le_trans [of "date_of x" d "date_of y"] by (auto simp: in_window_def)
  then show ?thesis
    using parse_date_input_two_parts
            [OF date_text_no_dash [OF assms(1)] date_text_no_dash [OF assms(2)] assms]
    by simp
qed

theorem parse_date_input_keeps_written_order_witness:
  "parse_date_input (U ''05/06/2024'' @ U '' - '' @ U ''01/06/2024'')
     = ([], Some (Date 2024 6 5, Date 2024 6 1))
   \<and> \<not> date_le (Date 2024 6 5) (Date 2024 6 1)
   \<and> \<not> in_window (Date 2024 6 5, Date 2024 6 1) (Date 2024 6 3)"
  using parse_date_input_keeps_written_order [OF strptime_example_dates, of "Date 2024 6 3"]
  by (simp add: date_le_def)


section \<open>A malformed date\<close>

lemma build_file_list_unfiltered:
  "build_file_list run mt None pm vm files
     = ([], Inr (map (task_of pm vm) (filter (\<lambda>rf. visible (snd rf)) files)))"
  by (induction files) (simp_all add: task_of_def Let_def)

lemma main_date_filter_malformed:
  assumes "strip typed \<noteq> []" and "snd (parse_date_input (strip typed)) = None"
  shows "\<exists>e. main_date_filter typed
           = ([Input_prompt Ask_date, Print (Error_parsing_date_input e),
               Print Continuing_without_date_filtering], None)"
  using assms
  by (auto simp: main_date_filter_def parse_date_input_def Let_def split: sum.splits)

lemma main_date_filter_abc:
  "main_date_filter (U ''abc'')
     = ([Input_prompt Ask_date, Print (Error_parsing_date_input (ValueError Format_mismatch)),
         Print Continuing_without_date_filtering], None)"
proof -
  have s: "strip (U ''abc'') = U ''abc''" by (simp add: strip_def isspace_def U_def)
  have ne: "U ''abc'' \<noteq> []" by (simp add: U_def)
  show ?thesis by (simp add: main_date_filter_def Let_def s ne parse_date_input_abc)
qed

lemma example_abc:
  "strip (U ''abc'') \<noteq> []" "snd (parse_date_input (strip (U ''abc''))) = None"
proof -
  have s: "strip (U ''abc'') = U ''abc''" by (simp add: strip_def isspace_def U_def)
  show "strip (U ''abc'') \<noteq> []" unfolding s by (simp add: U_def)
  show "snd (parse_date_input (strip (U ''abc''))) = None"
    unfolding s by (simp add: parse_date_input_abc)
qed

lemma example_visible:
  "visible (U ''a.JPG'')" "\<not> visible (U ''.hidden'')"
  by (simp_all add: visible_def startswith_def U_def)

section \<open>The race for the camera model\<close>

lemmas stamp_eval =
  U_def strptime_def fmt_colon_def fmt_hyphen_def directive_matches_def List.map_filter_def
  found_int_def int_of_def valid_date_def days_in_month_def is_leap_def isspace_def Let_def upt_rec

lemma strptime_example_stamp:
  "strptime (U ''2024:06:01 10:00:00'') fmt_colon = Inr (Datetime (Date 2024 6 1) 10 0 0)"
  by (simp add: stamp_eval)

lemma strptime_hyphen_stamp:
  "strptime (U ''2024-06-01 10:00:00'') fmt_hyphen = Inr (Datetime (Date 2024 6 1) 10 0 0)"
  "strptime (U ''2024-06-01 10:00:00'') fmt_colon = Inl (ValueError Format_mismatch)"
  by (simp_all add: stamp_eval)

lemma strptime_slash_stamp:
  "strptime (U ''2024/06/01'') fmt_hyphen = Inl (ValueError Format_mismatch)"
  "strptime (U ''2024/06/01'') fmt_colon = Inl (ValueError Format_mismatch)"
  by (simp_all add: stamp_eval)

lemma U_inject: "U a = U b \<longleftrightarrow> a = b"
  by (simp add: U_def inj_map_eq_map inj_def)

lemma U_nonempty: "U (c # cs) \<noteq> []"
  by (simp add: U_def)

lemma dict_get_example:
  "dict_get [(U ''SourceFile'', JStr (U ''/src/a.JPG'')), (U ''Model'', JStr (U m)),
             (U ''DateTimeOriginal'', JStr (U ''2024:06:01 10:00:00''))] (U ''Model'') = JStr (U m)"
  "dict_get [(U ''SourceFile'', JStr (U ''/src/a.JPG'')), (U ''Model'', JStr (U m)),
             (U ''DateTimeOriginal'', JStr (U ''2024:06:01 10:00:00''))] (U ''DateTimeOriginal'')
     = JStr (U ''2024:06:01 10:00:00'')"
  by (simp_all add: dict_get_def U_inject)

lemma exiftool_example:
  "exiftool_get_metadata (Inr \<lparr>returncode = 0, stdout_json = Inr (example_json m)\<rparr>) p
     = ([], Some \<lparr>model = JStr (U m),
                  datetime_original = Some (Datetime (Date 2024 6 1) 10 0 0)\<rparr>)"
  by (simp add: exiftool_get_metadata_def exiftool_get_metadata_try_def example_json_def
        dict_get_example strptime_example_stamp U_nonempty)

lemma strip_example: "strip (U '' EOS R5 '') = U ''EOS R5''"
  by (simp add: strip_def isspace_def U_def)

lemma extract_example_a:
  "extract_camera_model (example_exiftool (U ''/src/a.JPG'')) (U ''/src/a.JPG'')
     = ([], Inr (Some (U ''EOS R5'')))"
  by (simp add: extract_camera_model_def example_exiftool_def exiftool_example U_nonempty
        strip_example)















section \<open>The metadata probe: failures and fields\<close>

lemma strptime_raises_ValueError:
  "strptime s fmt = Inl e \<Longrightarrow> \<exists>v. e = ValueError v"
  by (auto simp: strptime_def Let_def split: list.splits if_splits prod.splits)

lemma try_formats_two:
  "try_formats s [f, g] =
     (case strptime s f of
        Inr dt \<Rightarrow> Inr (Some dt)
      | Inl _ \<Rightarrow> (case strptime s g of Inr dt \<Rightarrow> Inr (Some dt) | Inl _ \<Rightarrow> Inr None))"
  using strptime_raises_ValueError [of s f] strptime_raises_ValueError [of s g]
  by (auto split: sum.splits exn.splits)

lemma exiftool_tool_missing:
  "exiftool_get_metadata (Inl e) p = ([Print (Error_extracting_metadata p e)], None)"
  by (simp add: exiftool_get_metadata_def exiftool_get_metadata_try_def)

lemma exiftool_nonzero_exit:
  "returncode r \<noteq> 0 \<Longrightarrow> exiftool_get_metadata (Inr r) p = ([], None)"
  by (simp add: exiftool_get_metadata_def exiftool_get_metadata_try_def)

lemma exiftool_malformed_output:
  "returncode r = 0 \<Longrightarrow> stdout_json r = Inl e \<Longrightarrow>
   exiftool_get_metadata (Inr r) p = ([Print (Error_extracting_metadata p e)], None)"
  by (simp add: exiftool_get_metadata_def exiftool_get_metadata_try_def)

lemma exiftool_unexpected_shape:
  assumes "returncode r = 0" and "stdout_json r = Inr data"
    and "\<forall>info rest. data \<noteq> JArr (JObj info # rest)"
  shows "snd (exiftool_get_metadata (Inr r) p) = None"
proof (cases data)
  case (JArr xs)
  show ?thesis
  proof (cases xs)
    case Nil
    with JArr assms show ?thesis
      by (simp add: exiftool_get_metadata_def exiftool_get_metadata_try_def)
  next
    case (Cons x rest)
    with JArr assms(3) have "\<forall>info. x \<noteq> JObj info" by simp
    with JArr Cons assms(1,2) show ?thesis
      by (cases x) (simp_all add: exiftool_get_metadata_def exiftool_get_metadata_try_def)
  qed
qed (use assms in \<open>simp_all add: exiftool_get_metadata_def exiftool_get_metadata_try_def\<close>)

lemma exiftool_no_timestamp:
  assumes "returncode r = 0" and "stdout_json r = Inr (JArr (JObj info # rest))"
    and "\<not> truthy (dict_get info (U ''DateTimeOriginal''))"
  shows "exiftool_get_metadata (Inr r) p
           = ([], Some \<lparr>model = dict_get info (U ''Model''), datetime_original = None\<rparr>)"
  using assms by (simp add: exiftool_get_metadata_def exiftool_get_metadata_try_def Let_def)

lemma exiftool_timestamp_text:
  assumes "returncode r = 0" and "stdout_json r = Inr (JArr (JObj info # rest))"
    and "dict_get info (U ''DateTimeOriginal'') = JStr s"
  shows "exiftool_get_metadata (Inr r) p
           = ([], Some \<lparr>model = dict_get info (U ''Model''),
                        datetime_original =
                          (if s = [] then None
                           else case strptime s fmt_colon of
                                  Inr dt \<Rightarrow> Some dt
                                | Inl _ \<Rightarrow> (case strptime s fmt_hyphen of
                                             Inr dt \<Rightarrow> Some dt | Inl _ \<Rightarrow> None))\<rparr>)"
proof -
  have tf: "try_formats s [fmt_colon, fmt_hyphen] =
     (case strptime s fmt_colon of
        Inr dt \<Rightarrow> Inr (Some dt)
      | Inl _ \<Rightarrow> (case strptime s fmt_hyphen of Inr dt \<Rightarrow> Inr (Some dt) | Inl _ \<Rightarrow> Inr None))"
    by (rule try_formats_two)
  show ?thesis
    using assms
    by (auto simp: exiftool_get_metadata_def exiftool_get_metadata_try_def Let_def tf
          simp del: try_formats.simps split: sum.splits)
qed

lemma strptime_empty:
  "strptime [] fmt_colon = Inl (ValueError Format_mismatch)"
  "strptime [] fmt_hyphen = Inl (ValueError Format_mismatch)"
  by (simp_all add: strptime_def fmt_colon_def fmt_hyphen_def directive_matches_def
        List.map_filter_def)

lemma exiftool_timestamp_colon:
  assumes "returncode r = 0" and "stdout_json r = Inr (JArr (JObj info # rest))"
    and "dict_get info (U ''DateTimeOriginal'') = JStr s"
    and "strptime s fmt_colon = Inr dt"
  shows "exiftool_get_metadata (Inr r) p
           = ([], Some \<lparr>model = dict_get info (U ''Model''), datetime_original = Some dt\<rparr>)"
proof -
  have "s \<noteq> []"
    using assms(4) strptime_empty(1) by auto
  then show ?thesis
    unfolding exiftool_timestamp_text [OF assms(1-3)] using assms(4) by simp
qed

lemma exiftool_timestamp_hyphen:
  assumes "returncode r = 0" and "stdout_json r = Inr (JArr (JObj info # rest))"
    and "dict_get info (U ''DateTimeOriginal'') = JStr s"
    and "\<forall>dt'. strptime s fmt_colon \<noteq> Inr dt'" and "strptime s fmt_hyphen = Inr dt"
  shows "exiftool_get_metadata (Inr r) p
           = ([], Some \<lparr>model = dict_get info (U ''Model''), datetime_original = Some dt\<rparr>)"
proof -
  have "s \<noteq> []"
    using assms(5) strptime_empty(2) by auto
  then show ?thesis
    unfolding exiftool_timestamp_text [OF assms(1-3)] using assms(4,5)
    by (auto split: sum.splits)
qed

lemma exiftool_timestamp_not_text:
  assumes "returncode r = 0" and "stdout_json r = Inr (JArr (JObj info # rest))"
    and "truthy (dict_get info (U ''DateTimeOriginal''))"
    and "\<forall>s. dict_get info (U ''DateTimeOriginal'') \<noteq> JStr s"
  shows "exiftool_get_metadata (Inr r) p = ([Print (Error_extracting_metadata p TypeError)], None)"
  using assms
  by (cases "dict_get info (U ''DateTimeOriginal'')")
     (simp_all add: exiftool_get_metadata_def exiftool_get_metadata_try_def Let_def)

lemma extract_no_metadata:
  "snd (exiftool_get_metadata proc p) = None \<Longrightarrow>
   extract_camera_model proc p = (fst (exiftool_get_metadata proc p), Inr None)"
  by (simp add: extract_camera_model_def split_beta)

lemma extract_text_model:
  "snd (exiftool_get_metadata proc p) = Some m \<Longrightarrow> model m = JStr s \<Longrightarrow>
   snd (extract_camera_model proc p) = (if s = [] then Inr None else Inr (Some (strip s)))"
  by (simp add: extract_camera_model_def split_beta)

lemma extract_no_model:
  "snd (exiftool_get_metadata proc p) = Some m \<Longrightarrow> model m = JNull \<Longrightarrow>
   snd (extract_camera_model proc p) = Inr None"
  by (simp add: extract_camera_model_def split_beta)

lemma extract_other_model:
  "snd (exiftool_get_metadata proc p) = Some m \<Longrightarrow> truthy (model m) \<Longrightarrow>
   \<forall>s. model m \<noteq> JStr s \<Longrightarrow> snd (extract_camera_model proc p) = Inl AttributeError"
  by (cases "model m") (simp_all add: extract_camera_model_def split_beta)

lemma last_dropWhile:
  "dropWhile P xs \<noteq> [] \<Longrightarrow> last (dropWhile P xs) = last xs"
  by (induction xs) (auto split: if_splits)

lemma strip_trimmed:
  assumes "strip s \<noteq> []"
  shows "\<not> isspace (hd (strip s)) \<and> \<not> isspace (last (strip s))"
proof -
  define t where "t = dropWhile isspace s"
  define u where "u = dropWhile isspace (rev t)"
  have su: "strip s = rev u" by (simp add: strip_def t_def u_def)
  have u: "u \<noteq> []" using assms su by simp
  have l: "\<not> isspace (hd u)" using u unfolding u_def by (rule hd_dropWhile)
  have t: "t \<noteq> []" using u unfolding u_def by auto
  have "last u = last (rev t)" using u unfolding u_def by (rule last_dropWhile)
  then have "last u = hd t" using t by (simp add: last_rev)
  moreover have "\<not> isspace (hd t)" using t unfolding t_def by (rule hd_dropWhile)
  ultimately have h: "\<not> isspace (last u)" by simp
  show ?thesis using l h u by (simp add: su hd_rev last_rev)
qed

lemma get_file_date_embedded:
  "ext \<in> pe \<Longrightarrow> snd (exiftool_get_metadata proc p) = Some m \<Longrightarrow> datetime_original m = Some dt
   \<Longrightarrow> snd (get_file_date proc mtime p ext pe) = Inr dt"
  by (simp add: get_file_date_def split_beta)

lemma get_file_date_no_metadata:
  "ext \<in> pe \<Longrightarrow> snd (exiftool_get_metadata proc p) = None
   \<Longrightarrow> snd (get_file_date proc mtime p ext pe) = mtime"
  by (simp add: get_file_date_def split_beta)

lemma get_file_date_no_timestamp:
  "ext \<in> pe \<Longrightarrow> snd (exiftool_get_metadata proc p) = Some m \<Longrightarrow> datetime_original m = None
   \<Longrightarrow> snd (get_file_date proc mtime p ext pe) = mtime"
  by (simp add: get_file_date_def split_beta)

lemma get_file_date_not_photo:
  "ext \<notin> pe \<Longrightarrow> get_file_date proc mtime p ext pe = ([], mtime)"
  by (simp add: get_file_date_def)

subsection \<open>Examples\<close>

lemma example_model_only_fields:
  "returncode example_model_only = 0"
  "stdout_json example_model_only
     = Inr (JArr (JObj [(U ''SourceFile'', JStr (U ''/src/a.JPG'')),
                        (U ''Model'', JStr (U ''EOS R5''))] # []))"
  "dict_get [(U ''SourceFile'', JStr (U ''/src/a.JPG'')), (U ''Model'', JStr (U ''EOS R5''))]
     (U ''DateTimeOriginal'') = JNull"
  "dict_get [(U ''SourceFile'', JStr (U ''/src/a.JPG'')), (U ''Model'', JStr (U ''EOS R5''))]
     (U ''Model'') = JStr (U ''EOS R5'')"
  by (simp_all add: example_model_only_def dict_get_def U_inject)

lemma exiftool_model_only:
  "exiftool_get_metadata (Inr example_model_only) (U ''/src/a.JPG'')
     = ([], Some \<lparr>model = JStr (U ''EOS R5''), datetime_original = None\<rparr>)"
  using exiftool_no_timestamp [OF example_model_only_fields(1,2), of "U ''/src/a.JPG''"]
  by (simp add: example_model_only_fields(3,4))

lemma strip_already_trimmed: "strip (U ''EOS R5'') = U ''EOS R5''"
  by (simp add: strip_def isspace_def U_def)

lemma extract_model_only:
  "extract_camera_model (Inr example_model_only) (U ''/src/a.JPG'')
     = ([], Inr (Some (U ''EOS R5'')))"
  by (simp add: extract_camera_model_def exiftool_model_only U_nonempty strip_already_trimmed)

lemma example_odd_timestamp_fields:
  "returncode example_odd_timestamp = 0"
  "stdout_json example_odd_timestamp
     = Inr (JArr (JObj [(U ''Model'', JStr (U ''EOS R5'')),
                        (U ''DateTimeOriginal'', JStr (U ''2024/06/01''))] # []))"
  "dict_get [(U ''Model'', JStr (U ''EOS R5'')), (U ''DateTimeOriginal'', JStr (U ''2024/06/01''))]
     (U ''DateTimeOriginal'') = JStr (U ''2024/06/01'')"
  "dict_get [(U ''Model'', JStr (U ''EOS R5'')), (U ''DateTimeOriginal'', JStr (U ''2024/06/01''))]
     (U ''Model'') = JStr (U ''EOS R5'')"
  by (simp_all add: example_odd_timestamp_def dict_get_def U_inject)

lemma odd_timestamp_matches_neither:
  "\<forall>dt. strptime (U ''2024/06/01'') fmt_colon \<noteq> Inr dt"
  "\<forall>dt. strptime (U ''2024/06/01'') fmt_hyphen \<noteq> Inr dt"
  by (simp_all add: strptime_slash_stamp)

lemma example_timestamp_only_fields:
  "returncode example_timestamp_only = 0"
  "stdout_json example_timestamp_only
     = Inr (JArr (JObj [(U ''SourceFile'', JStr (U ''/src/a.JPG'')),
                        (U ''DateTimeOriginal'', JStr (U ''2024-06-01 10:00:00''))] # []))"
  "dict_get [(U ''SourceFile'', JStr (U ''/src/a.JPG'')),
             (U ''DateTimeOriginal'', JStr (U ''2024-06-01 10:00:00''))]
     (U ''DateTimeOriginal'') = JStr (U ''2024-06-01 10:00:00'')"
  "dict_get [(U ''SourceFile'', JStr (U ''/src/a.JPG'')),
             (U ''DateTimeOriginal'', JStr (U ''2024-06-01 10:00:00''))]
     (U ''Model'') = JNull"
  by (simp_all add: example_timestamp_only_def dict_get_def U_inject)

lemma hyphen_stamp_not_colon:
  "\<forall>dt'. strptime (U ''2024-06-01 10:00:00'') fmt_colon \<noteq> Inr dt'"
  by (simp add: strptime_hyphen_stamp)

text \<open>
  A model that ExifTool prints as a number (it prints as numbers the values that look
  like numbers) reaches \<open>.strip()\<close> in \<open>extract_camera_model\<close>, which raises.
\<close>

lemma extract_numeric_model_raises:
  "extract_camera_model (Inr example_numeric_model) (U ''/src/a.JPG'') = ([], Inl AttributeError)"
  by (simp add: extract_camera_model_def exiftool_get_metadata_def exiftool_get_metadata_try_def
        example_numeric_model_def dict_get_def U_inject)

subsection \<open>What a failed or partial extraction yields\<close>

text \<open>
  C5, as stated, fails: with the timestamp tag missing from the output, the identity
  is still returned.
\<close>

theorem missing_timestamp_keeps_the_identity:
  "exiftool_get_metadata (Inr example_model_only) (U ''/src/a.JPG'')
     = ([], Some \<lparr>model = JStr (U ''EOS R5''), datetime_original = None\<rparr>)
   \<and> extract_camera_model (Inr example_model_only) (U ''/src/a.JPG'')
     = ([], Inr (Some (U ''EOS R5'')))"
  by (intro conjI exiftool_model_only extract_model_only)

text \<open>
  C5, amended. \<open>exiftool_get_metadata\<close> returns a value in every case: a tool that
  cannot be run, an exit status other than 0, output that \<open>json.loads\<close> rejects and
  output that is not a list starting with an object give no metadata at all. In
  well-formed output each tag is read on its own, and a missing one leaves the other in
  place: without a timestamp tag the model is still returned, and a timestamp text in
  the colon layout, or else in the hyphen layout, is returned as the timestamp whatever
  the model tag holds, also when it is missing (the model is then \<open>None\<close>). A timestamp
  text that matches neither layout gives no timestamp and no error.
  \<open>extract_camera_model\<close> returns \<open>None\<close> when there is no metadata or no model, and a
  model that is text with the white space around it removed.
\<close>

theorem probe_failures_and_fields:
  "exiftool_get_metadata (Inl e) p = ([Print (Error_extracting_metadata p e)], None)
   \<and> (returncode r \<noteq> 0 \<longrightarrow> exiftool_get_metadata (Inr r) p = ([], None))
   \<and> (returncode r = 0 \<and> stdout_json r = Inl e
      \<longrightarrow> exiftool_get_metadata (Inr r) p = ([Print (Error_extracting_metadata p e)], None))
   \<and> (returncode r = 0 \<and> stdout_json r = Inr data
        \<and> (\<forall>info rest. data \<noteq> JArr (JObj info # rest))
      \<longrightarrow> snd (exiftool_get_metadata (Inr r) p) = None)
   \<and> (returncode r = 0 \<and> stdout_json r = Inr (JArr (JObj info # rest))
        \<and> dict_get info (U ''DateTimeOriginal'') = JNull
      \<longrightarrow> exiftool_get_metadata (Inr r) p
            = ([], Some \<lparr>model = dict_get info (U ''Model''), datetime_original = None\<rparr>))
   \<and> (returncode r = 0 \<and> stdout_json r = Inr (JArr (JObj info # rest))
        \<and> dict_get info (U ''DateTimeOriginal'') = JStr s
        \<and> (\<forall>dt. strptime s fmt_colon \<noteq> Inr dt) \<and> (\<forall>dt. strptime s fmt_hyphen \<noteq> Inr dt)
      \<longrightarrow> exiftool_get_metadata (Inr r) p
            = ([], Some \<lparr>model = dict_get info (U ''Model''), datetime_original = None\<rparr>))
   \<and> (returncode r = 0 \<and> stdout_json r = Inr (JArr (JObj info # rest))
        \<and> dict_get info (U ''DateTimeOriginal'') = JStr s
        \<and> strptime s fmt_colon = Inr stamp
      \<longrightarrow> exiftool_get_metadata (Inr r) p
            = ([], Some \<lparr>model = dict_get info (U ''Model''), datetime_original = Some stamp\<rparr>))
   \<and> (returncode r = 0 \<and> stdout_json r = Inr (JArr (JObj info # rest))
        \<and> dict_get info (U ''DateTimeOriginal'') = JStr s
        \<and> (\<forall>dt. strptime s fmt_colon \<noteq> Inr dt) \<and> strptime s fmt_hyphen = Inr stamp
      \<longrightarrow> exiftool_get_metadata (Inr r) p
            = ([], Some \<lparr>model = dict_get info (U ''Model''), datetime_original = Some stamp\<rparr>))
   \<and> (returncode r = 0 \<and> stdout_json r = Inr (JArr (JObj info # rest))
        \<and> dict_get info (U ''DateTimeOriginal'') = JStr s
      \<longrightarrow> exiftool_get_metadata (Inr r) p
            = ([], Some \<lparr>model = dict_get info (U ''Model''),
                         datetime_original =
                           (if s = [] then None
                            else case strptime s fmt_colon of
                                   Inr dt \<Rightarrow> Some dt
                                 | Inl _ \<Rightarrow> (case strptime s fmt_hyphen of
                                              Inr dt \<Rightarrow> Some dt | Inl _ \<Rightarrow> None))\<rparr>))
   \<and> (snd (exiftool_get_metadata proc p) = None
      \<longrightarrow> snd (extract_camera_model proc p) = Inr None)
   \<and> (snd (exiftool_get_metadata proc p) = Some m \<and> model m = JNull
      \<longrightarrow> snd (extract_camera_model proc p) = Inr None)
   \<and> (snd (exiftool_get_metadata proc p) = Some m \<and> model m = JStr t
      \<longrightarrow> snd (extract_camera_model proc p)
            = (if t = [] then Inr None else Inr (Some (strip t))))
   \<and> (strip t \<noteq> [] \<longrightarrow> \<not> isspace (hd (strip t)) \<and> \<not> isspace (last (strip t)))"
proof -
  have odd: "returncode r = 0 \<and> stdout_json r = Inr (JArr (JObj info # rest))
        \<and> dict_get info (U ''DateTimeOriginal'') = JStr s
        \<and> (\<forall>dt. strptime s fmt_colon \<noteq> Inr dt) \<and> (\<forall>dt. strptime s fmt_hyphen \<noteq> Inr dt)
      \<longrightarrow> exiftool_get_metadata (Inr r) p
            = ([], Some \<lparr>model = dict_get info (U ''Model''), datetime_original = None\<rparr>)"
  proof (intro impI, elim conjE)
    assume a: "returncode r = 0" "stdout_json r = Inr (JArr (JObj info # rest))"
      "dict_get info (U ''DateTimeOriginal'') = JStr s"
      and n: "\<forall>dt. strptime s fmt_colon \<noteq> Inr dt" "\<forall>dt. strptime s fmt_hyphen \<noteq> Inr dt"
    show "exiftool_get_metadata (Inr r) p
            = ([], Some \<lparr>model = dict_get info (U ''Model''), datetime_original = None\<rparr>)"
      unfolding exiftool_timestamp_text [OF a] using n by (auto split: sum.splits)
  qed
  have none: "returncode r = 0 \<and> stdout_json r = Inr (JArr (JObj info # rest))
        \<and> dict_get info (U ''DateTimeOriginal'') = JNull
      \<longrightarrow> exiftool_get_metadata (Inr r) p
            = ([], Some \<lparr>model = dict_get info (U ''Model''), datetime_original = None\<rparr>)"
    using exiftool_no_timestamp [of r info rest p] by simp
  have stripped: "snd (exiftool_get_metadata proc p) = Some m \<and> model m = JStr t
      \<longrightarrow> snd (extract_camera_model proc p)
            = (if t = [] then Inr None else Inr (Some (strip t)))"
    using extract_text_model [of proc p m t] by blast
  have nometa: "snd (exiftool_get_metadata proc p) = None
      \<longrightarrow> snd (extract_camera_model proc p) = Inr None"
    using extract_no_metadata [of proc p] by simp
  have colon: "returncode r = 0 \<and> stdout_json r = Inr (JArr (JObj info # rest))
        \<and> dict_get info (U ''DateTimeOriginal'') = JStr s
        \<and> strptime s fmt_colon = Inr stamp
      \<longrightarrow> exiftool_get_metadata (Inr r) p
            = ([], Some \<lparr>model = dict_get info (U ''Model''), datetime_original = Some stamp\<rparr>)"
    using exiftool_timestamp_colon [of r info rest s stamp p] by blast
  have hyphen: "returncode r = 0 \<and> stdout_json r = Inr (JArr (JObj info # rest))
        \<and> dict_get info (U ''DateTimeOriginal'') = JStr s
        \<and> (\<forall>dt. strptime s fmt_colon \<noteq> Inr dt) \<and> strptime s fmt_hyphen = Inr stamp
      \<longrightarrow> exiftool_get_metadata (Inr r) p
            = ([], Some \<lparr>model = dict_get info (U ''Model''), datetime_original = Some stamp\<rparr>)"
    using exiftool_timestamp_hyphen [of r info rest s stamp p] by blast
  have any: "returncode r = 0 \<and> stdout_json r = Inr (JArr (JObj info # rest))
        \<and> dict_get info (U ''DateTimeOriginal'') = JStr s
      \<longrightarrow> exiftool_get_metadata (Inr r) p
            = ([], Some \<lparr>model = dict_get info (U ''Model''),
                         datetime_original =
                           (if s = [] then None
                            else case strptime s fmt_colon of
                                   Inr dt \<Rightarrow> Some dt
                                 | Inl _ \<Rightarrow> (case strptime s fmt_hyphen of
                                              Inr dt \<Rightarrow> Some dt | Inl _ \<Rightarrow> None))\<rparr>)"
    using exiftool_timestamp_text [of r info rest s p] by blast
  have failures: "exiftool_get_metadata (Inl e) p = ([Print (Error_extracting_metadata p e)], None)
      \<and> (returncode r \<noteq> 0 \<longrightarrow> exiftool_get_metadata (Inr r) p = ([], None))
      \<and> (returncode r = 0 \<and> stdout_json r = Inl e
         \<longrightarrow> exiftool_get_metadata (Inr r) p = ([Print (Error_extracting_metadata p e)], None))
      \<and> (returncode r = 0 \<and> stdout_json r = Inr data
           \<and> (\<forall>info rest. data \<noteq> JArr (JObj info # rest))
         \<longrightarrow> snd (exiftool_get_metadata (Inr r) p) = None)"
    using exiftool_tool_missing [of e p] exiftool_nonzero_exit [of r p]
      exiftool_malformed_output [of r e p] exiftool_unexpected_shape [of r data p]
    by blast
  have identity: "(snd (exiftool_get_metadata proc p) = Some m \<and> model m = JNull
         \<longrightarrow> snd (extract_camera_model proc p) = Inr None)
      \<and> (strip t \<noteq> [] \<longrightarrow> \<not> isspace (hd (strip t)) \<and> \<not> isspace (last (strip t)))"
    using extract_no_model [of proc p m] strip_trimmed [of t] by blast
  show ?thesis
    using failures none odd colon hyphen any nometa stripped identity
    by (intro conjI) (elim conjE, assumption)+
qed

theorem probe_failures_and_fields_witness:
  "returncode \<lparr>returncode = 1, stdout_json = Inl JSONDecodeError\<rparr> \<noteq> 0
   \<and> exiftool_get_metadata (Inr \<lparr>returncode = 1, stdout_json = Inl JSONDecodeError\<rparr>)
        (U ''/src/c.JPG'') = ([], None)
   \<and> returncode example_odd_timestamp = 0
   \<and> (\<forall>dt. strptime (U ''2024/06/01'') fmt_colon \<noteq> Inr dt)
   \<and> (\<forall>dt. strptime (U ''2024/06/01'') fmt_hyphen \<noteq> Inr dt)
   \<and> exiftool_get_metadata (Inr example_odd_timestamp) (U ''/src/a.JPG'')
       = ([], Some \<lparr>model = JStr (U ''EOS R5''), datetime_original = None\<rparr>)
   \<and> returncode example_timestamp_only = 0
   \<and> strptime (U ''2024-06-01 10:00:00'') fmt_hyphen = Inr (Datetime (Date 2024 6 1) 10 0 0)
   \<and> exiftool_get_metadata (Inr example_timestamp_only) (U ''/src/a.JPG'')
       = ([], Some \<lparr>model = JNull,
                    datetime_original = Some (Datetime (Date 2024 6 1) 10 0 0)\<rparr>)
   \<and> snd (exiftool_get_metadata (example_exiftool (U ''/src/a.JPG'')) (U ''/src/a.JPG''))
       = Some \<lparr>model = JStr (U '' EOS R5 ''),
               datetime_original = Some (Datetime (Date 2024 6 1) 10 0 0)\<rparr>
   \<and> snd (extract_camera_model (example_exiftool (U ''/src/a.JPG'')) (U ''/src/a.JPG''))
       = Inr (Some (U ''EOS R5''))
   \<and> strip (U '' EOS R5 '') \<noteq> []
   \<and> \<not> isspace (hd (strip (U '' EOS R5 ''))) \<and> \<not> isspace (last (strip (U '' EOS R5 '')))"
proof -
  have exit1: "returncode \<lparr>returncode = 1, stdout_json = Inl JSONDecodeError\<rparr> \<noteq> 0" by simp
  have meta: "snd (exiftool_get_metadata (example_exiftool (U ''/src/a.JPG'')) (U ''/src/a.JPG''))
       = Some \<lparr>model = JStr (U '' EOS R5 ''),
               datetime_original = Some (Datetime (Date 2024 6 1) 10 0 0)\<rparr>"
    by (simp add: example_exiftool_def exiftool_example)
  have ne: "U '' EOS R5 '' \<noteq> []" "strip (U '' EOS R5 '') \<noteq> []"
    by (simp_all add: strip_example U_nonempty)
  have c1: "exiftool_get_metadata (Inr \<lparr>returncode = 1, stdout_json = Inl JSONDecodeError\<rparr>)
        (U ''/src/c.JPG'') = ([], None)"
    using probe_failures_and_fields
            [where r = "\<lparr>returncode = 1, stdout_json = Inl JSONDecodeError\<rparr>"
               and p = "U ''/src/c.JPG''"] exit1
    by blast
  have "exiftool_get_metadata (Inr example_odd_timestamp) (U ''/src/a.JPG'')
       = ([], Some \<lparr>model = dict_get [(U ''Model'', JStr (U ''EOS R5'')),
                            (U ''DateTimeOriginal'', JStr (U ''2024/06/01''))] (U ''Model''),
                    datetime_original = None\<rparr>)"
    using probe_failures_and_fields
            [where r = example_odd_timestamp and p = "U ''/src/a.JPG''"
               and s = "U ''2024/06/01''" and rest = "[]"
               and info = "[(U ''Model'', JStr (U ''EOS R5'')),
                            (U ''DateTimeOriginal'', JStr (U ''2024/06/01''))]"]
      example_odd_timestamp_fields(1,2,3) odd_timestamp_matches_neither
    by blast
  then have c2: "exiftool_get_metadata (Inr example_odd_timestamp) (U ''/src/a.JPG'')
       = ([], Some \<lparr>model = JStr (U ''EOS R5''), datetime_original = None\<rparr>)"
    by (simp only: example_odd_timestamp_fields(4))
  have "exiftool_get_metadata (Inr example_timestamp_only) (U ''/src/a.JPG'')
       = ([], Some \<lparr>model = dict_get [(U ''SourceFile'', JStr (U ''/src/a.JPG'')),
                            (U ''DateTimeOriginal'', JStr (U ''2024-06-01 10:00:00''))] (U ''Model''),
                    datetime_original = Some (Datetime (Date 2024 6 1) 10 0 0)\<rparr>)"
    using probe_failures_and_fields
            [where r = example_timestamp_only and p = "U ''/src/a.JPG''"
               and s = "U ''2024-06-01 10:00:00''" and rest = "[]"
               and stamp = "Datetime (Date 2024 6 1) 10 0 0"
               and info = "[(U ''SourceFile'', JStr (U ''/src/a.JPG'')),
                            (U ''DateTimeOriginal'', JStr (U ''2024-06-01 10:00:00''))]"]
      example_timestamp_only_fields(1,2,3) hyphen_stamp_not_colon strptime_hyphen_stamp(1)
    by blast
  then have c3: "exiftool_get_metadata (Inr example_timestamp_only) (U ''/src/a.JPG'')
       = ([], Some \<lparr>model = JNull,
                    datetime_original = Some (Datetime (Date 2024 6 1) 10 0 0)\<rparr>)"
    by (simp only: example_timestamp_only_fields(4))
  have model_eq: "model \<lparr>model = JStr (U '' EOS R5 ''),
                  datetime_original = Some (Datetime (Date 2024 6 1) 10 0 0)\<rparr>
          = JStr (U '' EOS R5 '')"
    by simp
  note text_model =
    probe_failures_and_fields
      [where proc = "example_exiftool (U ''/src/a.JPG'')" and p = "U ''/src/a.JPG''"
         and t = "U '' EOS R5 ''"
         and m = "\<lparr>model = JStr (U '' EOS R5 ''),
                   datetime_original = Some (Datetime (Date 2024 6 1) 10 0 0)\<rparr>",
       THEN conjunct2, THEN conjunct2, THEN conjunct2, THEN conjunct2, THEN conjunct2, THEN conjunct2, THEN conjunct2, THEN conjunct2, THEN conjunct2, THEN conjunct2, THEN conjunct2, THEN conjunct1, THEN mp, OF conjI [OF meta model_eq]]
  have c4: "snd (extract_camera_model (example_exiftool (U ''/src/a.JPG'')) (U ''/src/a.JPG''))
       = Inr (Some (U ''EOS R5''))"
    unfolding text_model using ne(1) by (simp only: if_False strip_example)
  note c5 =
    probe_failures_and_fields [where t = "U '' EOS R5 ''", THEN conjunct2, THEN conjunct2, THEN conjunct2, THEN conjunct2, THEN conjunct2, THEN conjunct2, THEN conjunct2, THEN conjunct2, THEN conjunct2, THEN conjunct2, THEN conjunct2, THEN conjunct2, THEN mp, OF ne(2)]
  show ?thesis
    by (intro conjI exit1 c1 example_odd_timestamp_fields(1) odd_timestamp_matches_neither c2
          example_timestamp_only_fields(1) strptime_hyphen_stamp(1) c3 meta c4 ne(2)
          conjunct1 [OF c5] conjunct2 [OF c5])
qed

section \<open>The date of a file\<close>

lemma file_ext_example_video: "file_ext (U ''b.mp4'') = U ''.mp4''"
  by (simp add: file_ext_def splitext_def rfind_def lower_def lower_char_def U_def upt_rec Let_def)

lemma video_is_no_photo: "U ''.mp4'' \<notin> photo_extensions"
  by (simp add: photo_extensions_def U_def)

lemma exiftool_example_video:
  "exiftool_get_metadata (example_exiftool (U ''/src/b.mp4'')) (U ''/src/b.mp4'')
     = ([], Some \<lparr>model = JStr (U '' EOS R5 ''),
                  datetime_original = Some (Datetime (Date 2024 6 1) 10 0 0)\<rparr>)"
  by (simp add: example_exiftool_def exiftool_example)

text \<open>
  C6, as stated, fails: for a video whose metadata hold a timestamp that parses,
  \<open>get_file_date\<close> returns the modification time.
\<close>

theorem video_gets_the_modification_time:
  "get_file_date (example_exiftool (U ''/src/b.mp4'')) (example_getmtime (U ''/src/b.mp4''))
     (U ''/src/b.mp4'') (file_ext (U ''b.mp4'')) photo_extensions
     = ([], Inr (Datetime (Date 2025 1 15) 12 30 0))
   \<and> exiftool_get_metadata (example_exiftool (U ''/src/b.mp4'')) (U ''/src/b.mp4'')
     = ([], Some \<lparr>model = JStr (U '' EOS R5 ''),
                  datetime_original = Some (Datetime (Date 2024 6 1) 10 0 0)\<rparr>)"
proof -
  have "get_file_date (example_exiftool (U ''/src/b.mp4'')) (example_getmtime (U ''/src/b.mp4''))
     (U ''/src/b.mp4'') (file_ext (U ''b.mp4'')) photo_extensions
     = ([], Inr (Datetime (Date 2025 1 15) 12 30 0))"
    unfolding file_ext_example_video
    using get_file_date_not_photo [OF video_is_no_photo]
    by (simp add: example_getmtime_def)
  then show ?thesis using exiftool_example_video by blast
qed

text \<open>
  C6, amended. For a file whose extension is a photo extension, the date is the
  embedded timestamp when the metadata hold one that parses, and the modification time
  otherwise. For every other file, videos included, the date is the modification time
  and the metadata are not read.
\<close>

theorem file_date_from_metadata_for_photos_only:
  "(ext \<in> pe \<and> snd (exiftool_get_metadata proc p) = Some m \<and> datetime_original m = Some dt
      \<longrightarrow> snd (get_file_date proc mtime p ext pe) = Inr dt)
   \<and> (ext \<in> pe \<and> snd (exiftool_get_metadata proc p) = Some m \<and> datetime_original m = None
      \<longrightarrow> snd (get_file_date proc mtime p ext pe) = mtime)
   \<and> (ext \<in> pe \<and> snd (exiftool_get_metadata proc p) = None
      \<longrightarrow> snd (get_file_date proc mtime p ext pe) = mtime)
   \<and> (ext \<notin> pe \<longrightarrow> get_file_date proc mtime p ext pe = ([], mtime))"
  using get_file_date_embedded [of ext pe proc p m dt mtime]
    get_file_date_no_timestamp [of ext pe proc p m mtime]
    get_file_date_no_metadata [of ext pe proc p mtime]
    get_file_date_not_photo [of ext pe proc mtime p]
  by blast

lemma photo_is_photo: "U ''.jpg'' \<in> photo_extensions"
  by (simp add: photo_extensions_def U_def)

theorem file_date_from_metadata_for_photos_only_witness:
  "U ''.jpg'' \<in> photo_extensions
   \<and> snd (exiftool_get_metadata (example_exiftool (U ''/src/a.JPG'')) (U ''/src/a.JPG''))
       = Some \<lparr>model = JStr (U '' EOS R5 ''),
               datetime_original = Some (Datetime (Date 2024 6 1) 10 0 0)\<rparr>
   \<and> snd (get_file_date (example_exiftool (U ''/src/a.JPG'')) (example_getmtime (U ''/src/a.JPG''))
            (U ''/src/a.JPG'') (U ''.jpg'') photo_extensions)
       = Inr (Datetime (Date 2024 6 1) 10 0 0)
   \<and> snd (exiftool_get_metadata (example_exiftool (U ''/src/c.JPG'')) (U ''/src/c.JPG'')) = None
   \<and> snd (get_file_date (example_exiftool (U ''/src/c.JPG'')) (example_getmtime (U ''/src/c.JPG''))
            (U ''/src/c.JPG'') (U ''.jpg'') photo_extensions)
       = example_getmtime (U ''/src/c.JPG'')
   \<and> U ''.mp4'' \<notin> photo_extensions
   \<and> get_file_date (example_exiftool (U ''/src/b.mp4'')) (example_getmtime (U ''/src/b.mp4''))
        (U ''/src/b.mp4'') (U ''.mp4'') photo_extensions
       = ([], example_getmtime (U ''/src/b.mp4''))"
proof -
  have a: "snd (exiftool_get_metadata (example_exiftool (U ''/src/a.JPG'')) (U ''/src/a.JPG''))
       = Some \<lparr>model = JStr (U '' EOS R5 ''),
               datetime_original = Some (Datetime (Date 2024 6 1) 10 0 0)\<rparr>"
    by (simp add: example_exiftool_def exiftool_example)
  have c: "snd (exiftool_get_metadata (example_exiftool (U ''/src/c.JPG'')) (U ''/src/c.JPG'')) = None"
    by (simp add: example_exiftool_def exiftool_get_metadata_def exiftool_get_metadata_try_def
          U_inject)
  have "snd (get_file_date (example_exiftool (U ''/src/a.JPG'')) (example_getmtime (U ''/src/a.JPG''))
            (U ''/src/a.JPG'') (U ''.jpg'') photo_extensions)
       = Inr (Datetime (Date 2024 6 1) 10 0 0)"
    using file_date_from_metadata_for_photos_only
            [where ext = "U ''.jpg''" and pe = photo_extensions
               and proc = "example_exiftool (U ''/src/a.JPG'')" and p = "U ''/src/a.JPG''"
               and dt = "Datetime (Date 2024 6 1) 10 0 0"
               and m = "\<lparr>model = JStr (U '' EOS R5 ''),
                         datetime_original = Some (Datetime (Date 2024 6 1) 10 0 0)\<rparr>"]
      photo_is_photo a
    by simp
  moreover have "snd (get_file_date (example_exiftool (U ''/src/c.JPG''))
            (example_getmtime (U ''/src/c.JPG'')) (U ''/src/c.JPG'') (U ''.jpg'') photo_extensions)
       = example_getmtime (U ''/src/c.JPG'')"
    using file_date_from_metadata_for_photos_only
            [where ext = "U ''.jpg''" and pe = photo_extensions
               and proc = "example_exiftool (U ''/src/c.JPG'')" and p = "U ''/src/c.JPG''"]
      photo_is_photo c
    by blast
  moreover have "get_file_date (example_exiftool (U ''/src/b.mp4''))
        (example_getmtime (U ''/src/b.mp4'')) (U ''/src/b.mp4'') (U ''.mp4'') photo_extensions
       = ([], example_getmtime (U ''/src/b.mp4''))"
    using file_date_from_metadata_for_photos_only
            [where ext = "U ''.mp4''" and pe = photo_extensions] video_is_no_photo
    by blast
  ultimately show ?thesis
    using photo_is_photo a c video_is_no_photo by blast
qed


section \<open>Directories\<close>

lemma create_directory_in_eq:
  "create_directory_in dirs p = ((if p \<in> dirs then [] else [Makedirs p]), insert p dirs)"
  by (simp add: create_directory_in_def create_directory_def)






lemma create_directories_append:
  "create_directories dirs (ps @ qs) =
     (fst (create_directories dirs ps) @ fst (create_directories (snd (create_directories dirs ps)) qs),
      snd (create_directories (snd (create_directories dirs ps)) qs))"
  by (induction ps arbitrary: dirs) (simp_all add: split_beta)

lemma create_directories_single:
  "create_directories dirs [p] = create_directory_in dirs p"
  by (simp add: split_beta)

lemma main_create_folders_eq:
  "main_create_folders dirs event_folder pm vm files_to_process
     = create_directories dirs (planned_folders event_folder pm vm files_to_process)"
proof -
  have "main_create_folders dirs event_folder pm vm files_to_process
     = create_directories dirs
         ((if photo_files_of files_to_process = [] then [] else [pm])
          @ (if video_files_of files_to_process = [] then []
             else [join event_folder (U ''Videography''), vm,
                   join (join event_folder (U ''Videography'')) (U ''EXPORT''),
                   join (join event_folder (U ''Videography'')) (U ''Project Files''),
                   join (join event_folder (U ''Videography'')) (U ''VFX + SFX Folder'')]))"
    unfolding create_directories_append main_create_folders_def Let_def split_beta
    by (simp only: create_directories_single [symmetric] create_directories.simps(1)
          if_distrib [of "create_directories _"] fst_conv snd_conv append_Nil append_Nil2
          split: if_split)
       simp
  then show ?thesis by (simp only: planned_folders_def)
qed







subsection \<open>Two example trees\<close>


lemma example_exts:
  "file_ext (U ''a.JPG'') = U ''.jpg''"
  "file_ext (U ''b.mp4'') = U ''.mp4''"
  "file_ext (U ''notes.txt'') = U ''.txt''"
  by (simp_all add: file_ext_def splitext_def rfind_def lower_def lower_char_def U_def upt_rec Let_def)

lemma example_ext_classes:
  "U ''.jpg'' \<in> photo_extensions" "U ''.jpg'' \<notin> video_extensions"
  "U ''.mp4'' \<notin> photo_extensions" "U ''.mp4'' \<in> video_extensions"
  "U ''.txt'' \<notin> photo_extensions" "U ''.txt'' \<notin> video_extensions"
  by (simp_all add: photo_extensions_def video_extensions_def U_def)

lemma example_names_visible:
  "visible (U ''a.JPG'')" "visible (U ''b.mp4'')" "\<not> visible (U ''.hidden'')"
  "visible (U ''notes.txt'')"
  by (simp_all add: visible_def startswith_def U_def)

lemma build_example_tree:
  "build_file_list run mt None pm vm (walk_files example_tree)
     = ([], Inr [task_of pm vm (U ''/src'', U ''a.JPG''), task_of pm vm (U ''/src'', U ''b.mp4''),
                 task_of pm vm (U ''/src'', U ''notes.txt'')])"
  unfolding build_file_list_unfiltered
  by (simp add: walk_files_def example_tree_def example_names_visible)


lemma example_tree_classes:
  "photo_files_of [task_of pm vm (U ''/src'', U ''a.JPG''), task_of pm vm (U ''/src'', U ''b.mp4''),
                   task_of pm vm (U ''/src'', U ''notes.txt'')] \<noteq> []"
  "video_files_of [task_of pm vm (U ''/src'', U ''a.JPG''), task_of pm vm (U ''/src'', U ''b.mp4''),
                   task_of pm vm (U ''/src'', U ''notes.txt'')] \<noteq> []"
  "photo_files_of [task_of pm vm (U ''/src'', U ''a.JPG'')] \<noteq> []"
  "video_files_of [task_of pm vm (U ''/src'', U ''a.JPG'')] = []"
  by (simp_all add: photo_files_of_def video_files_of_def task_of_def example_exts
        example_ext_classes)




section \<open>A whole run\<close>

text \<open>
  The example run, stage by stage: the date \<open>abc\<close> does not parse, the model is read
  from the photo, all seven directories are created, the video is copied, the photo
  comes out one byte short and the text file has no known extension.
\<close>

lemma example_strips:
  "strip (U ''/src'') = U ''/src''" "strip (U '' /e'') = U ''/e''"
  "strip (U ''Jane Doe '') = U ''Jane Doe''"
  by (simp_all add: strip_def isspace_def U_def)

lemma example_suffix:
  "folder_suffix_of (U ''EOS R5'') (U ''Jane Doe'') = U ''EOS_R5_Jane_Doe''"
  by (simp add: folder_suffix_of_def replace_def U_def)

lemma example_gather:
  "main_gather_photo_files example_tree = [U ''/src/a.JPG'']"
  by (simp add: main_gather_photo_files_def walk_files_def example_tree_def
        example_names_visible example_exts example_ext_classes)
     (simp add: join_def startswith_def U_def)

lemma example_probe:
  "find_first_camera_model_in_parallel example_exiftool [0] [U ''/src/a.JPG'']
     = ([Submit_probe (U ''/src/a.JPG'')], Inr (Some (U ''EOS R5'')))"
  by (simp add: find_first_camera_model_in_parallel_def as_completed_def Let_def
        extract_example_a U_nonempty)

lemma example_camera_model:
  "main_camera_model example_exiftool [0] [U ''/src/a.JPG''] []
     = ([Submit_probe (U ''/src/a.JPG'')], Inr (U ''EOS R5''))"
  by (simp add: main_camera_model_def example_probe U_nonempty)

lemma example_run_paths:
  "join (U ''/e'') (U ''Graphics'') = U ''/e/Graphics''"
  "join (U ''/e'') (U ''Photography'') = U ''/e/Photography''"
  "join (U ''/e/Photography'') (U ''EOS_R5_Jane_Doe'') = U ''/e/Photography/EOS_R5_Jane_Doe''"
  "join (U ''/e'') (U ''Videography'') = U ''/e/Videography''"
  "join (U ''/e/Videography'') (U ''EOS_R5_Jane_Doe'') = U ''/e/Videography/EOS_R5_Jane_Doe''"
  "join (U ''/e/Videography'') (U ''EXPORT'') = U ''/e/Videography/EXPORT''"
  "join (U ''/e/Videography'') (U ''Project Files'') = U ''/e/Videography/Project Files''"
  "join (U ''/e/Videography'') (U ''VFX + SFX Folder'') = U ''/e/Videography/VFX + SFX Folder''"
  by (simp_all add: join_def startswith_def U_def)

lemma example_plan:
  "main_plan example_exiftool example_getmtime {} None (U ''/e'') (U ''EOS_R5_Jane_Doe'')
     example_tree
   = ([Makedirs (U ''/e/Graphics''), Makedirs (U ''/e/Photography/EOS_R5_Jane_Doe''), Makedirs (U ''/e/Videography''),
       Makedirs (U ''/e/Videography/EOS_R5_Jane_Doe''), Makedirs (U ''/e/Videography/EXPORT''),
       Makedirs (U ''/e/Videography/Project Files''),
       Makedirs (U ''/e/Videography/VFX + SFX Folder'')],
      {U ''/e/Graphics'', (U ''/e/Photography/EOS_R5_Jane_Doe''), U ''/e/Videography'', (U ''/e/Videography/EOS_R5_Jane_Doe''),
       U ''/e/Videography/EXPORT'', U ''/e/Videography/Project Files'',
       U ''/e/Videography/VFX + SFX Folder''},
      Inr [task_of (U ''/e/Photography/EOS_R5_Jane_Doe'') (U ''/e/Videography/EOS_R5_Jane_Doe'') (U ''/src'', U ''a.JPG''),
           task_of (U ''/e/Photography/EOS_R5_Jane_Doe'') (U ''/e/Videography/EOS_R5_Jane_Doe'') (U ''/src'', U ''b.mp4''),
           task_of (U ''/e/Photography/EOS_R5_Jane_Doe'') (U ''/e/Videography/EOS_R5_Jane_Doe'') (U ''/src'', U ''notes.txt'')])"
  by (simp add: main_plan_def Let_def example_run_paths build_example_tree
        main_create_folders_eq planned_folders_def example_tree_classes
        create_directory_in_eq U_inject)
     auto


lemma example_run_files:
  "process_file example_os_truncated (task_of (U ''/e/Photography/EOS_R5_Jane_Doe'') (U ''/e/Videography/EOS_R5_Jane_Doe'') (U ''/src'', U ''a.JPG''))
     = ([Copy2 (U ''/src/a.JPG'') (U ''/e/Photography/EOS_R5_Jane_Doe/JPG/a.JPG''),
         Print (Warning_size_mismatch (U ''a.JPG''))],
        Inr (False, U ''a.JPG''))"
  "process_file example_os_clean (task_of (U ''/e/Photography/EOS_R5_Jane_Doe'') (U ''/e/Videography/EOS_R5_Jane_Doe'') (U ''/src'', U ''b.mp4''))
     = ([Makedirs (U ''/e/Videography/EOS_R5_Jane_Doe/MP4''),
         Copy2 (U ''/src/b.mp4'') (U ''/e/Videography/EOS_R5_Jane_Doe/MP4/b.mp4'')],
        Inr (True, U ''b.mp4''))"
  "process_file example_os_clean (task_of (U ''/e/Photography/EOS_R5_Jane_Doe'') (U ''/e/Videography/EOS_R5_Jane_Doe'') (U ''/src'', U ''notes.txt''))
     = ([], Inr (False, U ''notes.txt''))"
  by (simp_all add: process_file_def task_of_def example_os_truncated_def example_os_clean_def
        create_directory_def secure_copy_def path_eval)

lemma example_last_file_name: "last_file_name example_tree = U ''notes.txt''"
  by (simp add: last_file_name_def walk_files_def example_tree_def)

lemma example_transfer:
  "main_transfer example_batch_os [1, 0, 2] (U ''notes.txt'')
     [task_of (U ''/e/Photography/EOS_R5_Jane_Doe'') (U ''/e/Videography/EOS_R5_Jane_Doe'') (U ''/src'', U ''a.JPG''),
      task_of (U ''/e/Photography/EOS_R5_Jane_Doe'') (U ''/e/Videography/EOS_R5_Jane_Doe'') (U ''/src'', U ''b.mp4''),
      task_of (U ''/e/Photography/EOS_R5_Jane_Doe'') (U ''/e/Videography/EOS_R5_Jane_Doe'') (U ''/src'', U ''notes.txt'')]
   = ([Makedirs (U ''/e/Videography/EOS_R5_Jane_Doe/MP4''),
       Copy2 (U ''/src/b.mp4'') (U ''/e/Videography/EOS_R5_Jane_Doe/MP4/b.mp4''),
       Copy2 (U ''/src/a.JPG'') (U ''/e/Photography/EOS_R5_Jane_Doe/JPG/a.JPG''),
       Print (Warning_size_mismatch (U ''a.JPG''))],
      \<lparr>success_count = 1, skipped_files = [U ''a.JPG'', U ''notes.txt''],
       file_name_var = U ''notes.txt''\<rparr>)"
  by (simp add: main_transfer_def futures_def as_completed_def upt_rec example_batch_os_def
        example_run_files)

lemma example_run:
  "main example_surroundings example_typed
   = ([Input_prompt Ask_source_folder, Input_prompt Ask_event_folder, Input_prompt Ask_name,
       Input_prompt Ask_date, Print (Error_parsing_date_input (ValueError Format_mismatch)),
       Print Continuing_without_date_filtering,
       Submit_probe (U ''/src/a.JPG''),
       Makedirs (U ''/e/Graphics''), Makedirs (U ''/e/Photography/EOS_R5_Jane_Doe''), Makedirs (U ''/e/Videography''),
       Makedirs (U ''/e/Videography/EOS_R5_Jane_Doe''), Makedirs (U ''/e/Videography/EXPORT''),
       Makedirs (U ''/e/Videography/Project Files''),
       Makedirs (U ''/e/Videography/VFX + SFX Folder''),
       Makedirs (U ''/e/Videography/EOS_R5_Jane_Doe/MP4''),
       Copy2 (U ''/src/b.mp4'') (U ''/e/Videography/EOS_R5_Jane_Doe/MP4/b.mp4''),
       Copy2 (U ''/src/a.JPG'') (U ''/e/Photography/EOS_R5_Jane_Doe/JPG/a.JPG''),
       Print (Warning_size_mismatch (U ''a.JPG'')),
       Input_prompt Ask_any_key],
      Inr \<lparr>success_count = 1, skipped_files = [U ''a.JPG'', U ''notes.txt''],
           file_name_var = U ''notes.txt''\<rparr>)"
  by (simp add: main_def example_surroundings_def example_typed_def Let_def example_strips
        main_date_filter_abc example_gather example_camera_model example_suffix example_plan
        example_last_file_name example_transfer del: One_nat_def)


section \<open>A malformed date: the run goes on\<close>

text \<open>
  C9, as stated, fails: after the malformed text \<open>abc\<close> the program prints the error
  and that it continues without date filtering, and goes on with no filter. It asks
  nothing: in the whole run the only prompt after the date is the closing one, and
  the files are transferred.
\<close>

theorem malformed_date_is_no_decision_point:
  "main_date_filter (U ''abc'')
     = ([Input_prompt Ask_date, Print (Error_parsing_date_input (ValueError Format_mismatch)),
         Print Continuing_without_date_filtering], None)
   \<and> main example_surroundings example_typed
     = ([Input_prompt Ask_source_folder, Input_prompt Ask_event_folder, Input_prompt Ask_name,
         Input_prompt Ask_date, Print (Error_parsing_date_input (ValueError Format_mismatch)),
         Print Continuing_without_date_filtering,
         Submit_probe (U ''/src/a.JPG''),
         Makedirs (U ''/e/Graphics''), Makedirs (U ''/e/Photography/EOS_R5_Jane_Doe''),
         Makedirs (U ''/e/Videography''), Makedirs (U ''/e/Videography/EOS_R5_Jane_Doe''),
         Makedirs (U ''/e/Videography/EXPORT''),
         Makedirs (U ''/e/Videography/Project Files''),
         Makedirs (U ''/e/Videography/VFX + SFX Folder''),
         Makedirs (U ''/e/Videography/EOS_R5_Jane_Doe/MP4''),
         Copy2 (U ''/src/b.mp4'') (U ''/e/Videography/EOS_R5_Jane_Doe/MP4/b.mp4''),
         Copy2 (U ''/src/a.JPG'') (U ''/e/Photography/EOS_R5_Jane_Doe/JPG/a.JPG''),
         Print (Warning_size_mismatch (U ''a.JPG'')),
         Input_prompt Ask_any_key],
        Inr \<lparr>success_count = 1, skipped_files = [U ''a.JPG'', U ''notes.txt''],
             file_name_var = U ''notes.txt''\<rparr>)"
  by (intro conjI main_date_filter_abc example_run)

text \<open>
  C9, amended. Whenever the text typed at the date prompt is not empty and does not
  parse, the program prints the parse error and the notice that it continues without
  date filtering, asks nothing further, and the run goes on unfiltered: the second
  walk keeps every visible file and dates none.
\<close>

theorem malformed_date_is_reported_and_run_continues_unfiltered:
  assumes "strip typed \<noteq> []" and "snd (parse_date_input (strip typed)) = None"
  shows "(\<exists>e. main_date_filter typed
            = ([Input_prompt Ask_date, Print (Error_parsing_date_input e),
                Print Continuing_without_date_filtering], None))
         \<and> build_file_list run mt (snd (main_date_filter typed)) pm vm files
            = ([], Inr (map (task_of pm vm) (filter (\<lambda>rf. visible (snd rf)) files)))"
proof -
  obtain e where e: "main_date_filter typed
      = ([Input_prompt Ask_date, Print (Error_parsing_date_input e),
          Print Continuing_without_date_filtering], None)"
    using main_date_filter_malformed [OF assms] by blast
  then have "snd (main_date_filter typed) = None" by simp
  then show ?thesis
    using e build_file_list_unfiltered [of run mt pm vm files] by simp
qed

theorem malformed_date_is_reported_and_run_continues_unfiltered_witness:
  "strip (U ''abc'') \<noteq> [] \<and> snd (parse_date_input (strip (U ''abc''))) = None
   \<and> build_file_list example_exiftool example_getmtime (snd (main_date_filter (U ''abc'')))
        (U ''/e/Photography/X_Y'') (U ''/e/Videography/X_Y'')
        [(U ''/src'', U ''a.JPG''), (U ''/src'', U ''.hidden'')]
       = ([], Inr [task_of (U ''/e/Photography/X_Y'') (U ''/e/Videography/X_Y'')
                     (U ''/src'', U ''a.JPG'')])"
  using malformed_date_is_reported_and_run_continues_unfiltered
          [OF example_abc, where run = example_exiftool and mt = example_getmtime
             and pm = "U ''/e/Photography/X_Y''" and vm = "U ''/e/Videography/X_Y''"
             and files = "[(U ''/src'', U ''a.JPG''), (U ''/src'', U ''.hidden'')]"]
    example_abc
  by (simp add: example_visible)

end
